theory Spec2Isabelle
  imports Main "HOL-Library.Word" "HOL-Library.List_Lexorder" "HOL-Library.Char_ord"
    "HOL-Library.Multiset"
begin

unbundle bit_operations_syntax

text \<open>
  A model of the core of the Go package xtemplate: the capability set and the function
  map built from it, the gate of the operations, the coercion engine of the namespace
  conv, \<open>Sort\<close> and \<open>Unique\<close> of the namespace slice, and the early return through
  \<open>Execute\<close>, \<open>ExecuteTemplate\<close> and \<open>Tmpl.Exec\<close>. A Go result \<open>(T, error)\<close> is a value of
  \<open>error + T\<close>. The definitions come first, the properties follow.
\<close>

section \<open>Dynamic values\<close>

text \<open>
  A Go value of static type \<open>any\<close>, as the template engine hands it to the functions of
  package xtemplate. Integers carry their width (\<open>int\<close> and \<open>uint\<close> are the 64-bit
  platform types), floating-point numbers are their IEEE 754 bit patterns, and slices and
  maps are references: a slice value is the address of its backing array in the store.
  \<open>VPointer a v\<close> is a non-nil pointer at address \<open>a\<close> whose pointee is \<open>v\<close>;
  \<open>VOpaque\<close> stands for a comparable value of any other type (a struct, a channel, ...).
\<close>

type_synonym addr = nat

datatype any =
    VNil
  | VBool bool
  | VString string
  | VInt "64 word"
  | VInt8 "8 word"
  | VInt16 "16 word"
  | VInt32 "32 word"
  | VInt64 "64 word"
  | VUint "64 word"
  | VUint8 "8 word"
  | VUint16 "16 word"
  | VUint32 "32 word"
  | VUint64 "64 word"
  | VFloat32 "32 word"
  | VFloat64 "64 word"
  | VSlice addr
  | VMap addr
  | VPointer addr any
  | VOpaque string

section \<open>Package funcs: function identifiers\<close>

record Func =
  Namespace :: string
  Name :: string

text \<open>
  The interface \<open>AllowedFunctions\<close> has two implementations in package funcs: a single
  \<open>Func\<close> and a collection \<open>Funcs\<close>.
\<close>

datatype AllowedFunctions = OneFunc Func | ManyFuncs "Func list"

fun Functions :: "AllowedFunctions \<Rightarrow> Func list" where
  "Functions (OneFunc f) = [f]"
| "Functions (ManyFuncs fs) = fs"

section \<open>Errors\<close>

text \<open>
  The error values of the package. \<open>ErrorfW format args e\<close> is
  \<open>fmt.Errorf(format, args..., e)\<close> with the verb \<open>%w\<close> for \<open>e\<close>: an error that
  wraps \<open>e\<close>. \<open>Errorf format args\<close> is \<open>fmt.Errorf\<close> without \<open>%w\<close>, \<open>ErrorNew msg\<close>
  is \<open>errors.New(msg)\<close>. \<open>NumError fn num err\<close> is \<open>*strconv.NumError\<close>, and
  \<open>Panic\<close> is a run-time panic. \<open>HashPanic k\<close> is the panic of the run time on hashing
  the map key \<open>k\<close>, a value of interface type whose dynamic type cannot be hashed: the
  run-time error \<open>hash of unhashable type T\<close>, with \<open>T\<close> the dynamic type of \<open>k\<close>.
\<close>

datatype numErr = ErrSyntax | ErrRange

datatype error =
    FuncNotAllowedError Func
  | ReturnError any
  | ErrorfW string "any list" error
  | Errorf string "any list"
  | ErrorNew string
  | NumError string string numErr
  | Panic string
  | HashPanic any

text \<open>
  \<open>errors.As(err, &retErr)\<close> with \<open>retErr\<close> of type \<open>ReturnError\<close>: the first error of
  the chain of wrapped errors that is a \<open>ReturnError\<close>.
\<close>

fun errors_As_ReturnError :: "error \<Rightarrow> any option" where
  "errors_As_ReturnError (ReturnError v) = Some v"
| "errors_As_ReturnError (ErrorfW format args e) = errors_As_ReturnError e"
| "errors_As_ReturnError (FuncNotAllowedError f) = None"
| "errors_As_ReturnError (Errorf format args) = None"
| "errors_As_ReturnError (ErrorNew msg) = None"
| "errors_As_ReturnError (NumError fn num err) = None"
| "errors_As_ReturnError (Panic msg) = None"
| "errors_As_ReturnError (HashPanic k) = None"

section \<open>The root context and the function map\<close>

text \<open>
  A parsed \<open>*template.Template\<close> is taken by what executing it does: its methods
  \<open>Execute\<close> and \<open>ExecuteTemplate\<close> (here \<open>tExecute\<close> and \<open>tExecuteTemplate\<close>) give the text
  written to the writer and the error the execution ended with, if any. The engine itself
  (text/template) is not part of the repository.
\<close>

record template =
  tExecute :: "any \<Rightarrow> string \<times> error option"
  tExecuteTemplate :: "string \<Rightarrow> any \<Rightarrow> string \<times> error option"

record rootContext =
  template :: template
  allowedFunctionSet :: "Func set"

datatype NamespaceHandle =
    Conv rootContext
  | Cmp rootContext
  | Dict rootContext
  | FilePath rootContext
  | JSON rootContext
  | OS rootContext
  | Path rootContext
  | Regexp rootContext
  | Slice rootContext
  | Strings rootContext
  | Tmpl rootContext
  | URL rootContext

text \<open>
  The values of a \<open>template.FuncMap\<close>: the function \<open>return\<close> takes one value, a namespace
  accessor takes any number of values and yields the handle of its namespace.
\<close>

datatype TemplateFunc =
    ReturnFunc "any \<Rightarrow> error + any"
  | NamespaceFunc "any list \<Rightarrow> error + NamespaceHandle"

text \<open>
  \<open>createAllowedFunctionSet\<close>. The table \<open>funcs.NamespacesAndTheirFunctions\<close> is generated
  code that is not among the sources; it is the parameter \<open>tbl\<close>, a map from a namespace
  to the set of its function names. The first loop collects the functions of every
  argument, the second keeps the ones the table knows.
\<close>

fun allFunctions :: "AllowedFunctions list \<Rightarrow> Func list" where
  "allFunctions [] = []"
| "allFunctions (f # allowedFunctions) = Functions f @ allFunctions allowedFunctions"

fun allowLoop ::
  "(string \<rightharpoonup> string set) \<Rightarrow> Func list \<Rightarrow> string set \<times> Func set \<Rightarrow> string set \<times> Func set" where
  "allowLoop tbl [] (namespaceSet, functionSet) = (namespaceSet, functionSet)"
| "allowLoop tbl (allowedFunction # rest) (namespaceSet, functionSet) =
     (case tbl (Namespace allowedFunction) of
        None \<Rightarrow> allowLoop tbl rest (namespaceSet, functionSet)
      | Some nsSet \<Rightarrow>
          if Name allowedFunction \<notin> nsSet then allowLoop tbl rest (namespaceSet, functionSet)
          else allowLoop tbl rest
                 (insert (Namespace allowedFunction) namespaceSet,
                  insert \<lparr>Namespace = Namespace allowedFunction, Name = Name allowedFunction\<rparr>
                    functionSet))"

definition createAllowedFunctionSet ::
  "(string \<rightharpoonup> string set) \<Rightarrow> AllowedFunctions list \<Rightarrow> string set \<times> Func set" where
  "createAllowedFunctionSet tbl allowedFunctions =
     allowLoop tbl (allFunctions allowedFunctions) ({}, {})"

text \<open>
  \<open>FuncMap\<close>: the entry \<open>return\<close> is always there; each of the twelve namespaces gets its
  accessor when the namespace set holds it.
\<close>

definition FuncMap ::
  "(string \<rightharpoonup> string set) \<Rightarrow> template \<Rightarrow> AllowedFunctions list \<Rightarrow> (string \<rightharpoonup> TemplateFunc)" where
  "FuncMap tbl t allowedFunctions =
     (case createAllowedFunctionSet tbl allowedFunctions of
        (allowedNamespaceSet, allowedFunctionSet') \<Rightarrow>
          let m = [''return'' \<mapsto> ReturnFunc (\<lambda>v. Inl (ReturnError v))];
              rootCtx = \<lparr>template = t, allowedFunctionSet = allowedFunctionSet'\<rparr>;
              m = (if ''conv'' \<in> allowedNamespaceSet
                   then m(''conv'' \<mapsto> NamespaceFunc (\<lambda>_. Inr (Conv rootCtx))) else m);
              m = (if ''cmp'' \<in> allowedNamespaceSet
                   then m(''cmp'' \<mapsto> NamespaceFunc (\<lambda>_. Inr (Cmp rootCtx))) else m);
              m = (if ''dict'' \<in> allowedNamespaceSet
                   then m(''dict'' \<mapsto> NamespaceFunc (\<lambda>_. Inr (Dict rootCtx))) else m);
              m = (if ''filepath'' \<in> allowedNamespaceSet
                   then m(''filepath'' \<mapsto> NamespaceFunc (\<lambda>_. Inr (FilePath rootCtx))) else m);
              m = (if ''json'' \<in> allowedNamespaceSet
                   then m(''json'' \<mapsto> NamespaceFunc (\<lambda>_. Inr (JSON rootCtx))) else m);
              m = (if ''os'' \<in> allowedNamespaceSet
                   then m(''os'' \<mapsto> NamespaceFunc (\<lambda>_. Inr (OS rootCtx))) else m);
              m = (if ''path'' \<in> allowedNamespaceSet
                   then m(''path'' \<mapsto> NamespaceFunc (\<lambda>_. Inr (Path rootCtx))) else m);
              m = (if ''regexp'' \<in> allowedNamespaceSet
                   then m(''regexp'' \<mapsto> NamespaceFunc (\<lambda>_. Inr (Regexp rootCtx))) else m);
              m = (if ''slice'' \<in> allowedNamespaceSet
                   then m(''slice'' \<mapsto> NamespaceFunc (\<lambda>_. Inr (Slice rootCtx))) else m);
              m = (if ''strings'' \<in> allowedNamespaceSet
                   then m(''strings'' \<mapsto> NamespaceFunc (\<lambda>_. Inr (Strings rootCtx))) else m);
              m = (if ''tmpl'' \<in> allowedNamespaceSet
                   then m(''tmpl'' \<mapsto> NamespaceFunc (\<lambda>_. Inr (Tmpl rootCtx))) else m);
              m = (if ''url'' \<in> allowedNamespaceSet
                   then m(''url'' \<mapsto> NamespaceFunc (\<lambda>_. Inr (URL rootCtx))) else m)
          in m)"

text \<open>The namespace identifiers \<open>FuncMap\<close> knows, in the order of its source.\<close>

definition namespaces :: "string list" where
  "namespaces =
     [''conv'', ''cmp'', ''dict'', ''filepath'', ''json'', ''os'', ''path'', ''regexp'',
      ''slice'', ''strings'', ''tmpl'', ''url'']"

section \<open>Rendering values: package fmt\<close>

text \<open>
  \<open>fmt.Sprint\<close> of one value. Booleans, strings, integers and \<open>nil\<close> are written as package
  fmt writes them (integers in decimal); the formatting of every other value
  (floating-point numbers, slices, maps, pointers, structs) is the parameter \<open>fmtv\<close>.
\<close>

definition digitChars :: string where
  "digitChars = ''0123456789''"

fun decimal :: "nat \<Rightarrow> string" where
  "decimal n =
     (if n < 10 then [digitChars ! n] else decimal (n div 10) @ [digitChars ! (n mod 10)])"

definition FormatInt :: "int \<Rightarrow> string" where
  "FormatInt i = (if i < 0 then CHR ''-'' # decimal (nat (- i)) else decimal (nat i))"

fun Sprint :: "(any \<Rightarrow> string) \<Rightarrow> any \<Rightarrow> string" where
  "Sprint fmtv VNil = ''<nil>''"
| "Sprint fmtv (VBool b) = (if b then ''true'' else ''false'')"
| "Sprint fmtv (VString s) = s"
| "Sprint fmtv (VInt i) = FormatInt (sint i)"
| "Sprint fmtv (VInt8 i) = FormatInt (sint i)"
| "Sprint fmtv (VInt16 i) = FormatInt (sint i)"
| "Sprint fmtv (VInt32 i) = FormatInt (sint i)"
| "Sprint fmtv (VInt64 i) = FormatInt (sint i)"
| "Sprint fmtv (VUint u) = decimal (unat u)"
| "Sprint fmtv (VUint8 u) = decimal (unat u)"
| "Sprint fmtv (VUint16 u) = decimal (unat u)"
| "Sprint fmtv (VUint32 u) = decimal (unat u)"
| "Sprint fmtv (VUint64 u) = decimal (unat u)"
| "Sprint fmtv v = fmtv v"

section \<open>Early return: Execute, ExecuteTemplate and Tmpl.Exec\<close>

text \<open>
  The writer \<open>wr\<close> is the text written to it so far; writing appends. \<open>finishExecute\<close>
  gives the writer after the call and the error returned.
\<close>

definition finishExecute ::
  "(any \<Rightarrow> string) \<Rightarrow> error option \<Rightarrow> string \<Rightarrow> string \<times> error option" where
  "finishExecute fmtv err wr =
     (case err of
        Some e \<Rightarrow>
          (case errors_As_ReturnError e of
             Some retErr_Value \<Rightarrow> (wr @ Sprint fmtv retErr_Value, None)
           | None \<Rightarrow> (wr, Some (ErrorfW ''failed to execute template: %w'' [] e)))
      | None \<Rightarrow> (wr, None))"

definition ExecuteTemplate ::
  "(any \<Rightarrow> string) \<Rightarrow> template \<Rightarrow> string \<Rightarrow> string \<Rightarrow> any \<Rightarrow> string \<times> error option" where
  "ExecuteTemplate fmtv t wr name data =
     (case tExecuteTemplate t name data of
        (out, err) \<Rightarrow> finishExecute fmtv err (wr @ out))"

definition Execute ::
  "(any \<Rightarrow> string) \<Rightarrow> template \<Rightarrow> string \<Rightarrow> any \<Rightarrow> string \<times> error option" where
  "Execute fmtv t wr data =
     (case tExecute t data of
        (out, err) \<Rightarrow> finishExecute fmtv err (wr @ out))"

text \<open>\<open>Tmpl.Exec\<close> (fn_tmpl.go): the sub-template runs into a buffer of its own.\<close>

definition Tmpl_Exec :: "(any \<Rightarrow> string) \<Rightarrow> rootContext \<Rightarrow> string \<Rightarrow> any \<Rightarrow> error + string" where
  "Tmpl_Exec fmtv ctx name data =
     (case tExecuteTemplate (template ctx) name data of
        (buf, err) \<Rightarrow>
          (case err of
             Some e \<Rightarrow>
               (case errors_As_ReturnError e of
                  Some retErr_Value \<Rightarrow> Inr (Sprint fmtv retErr_Value)
                | None \<Rightarrow>
                    Inl (ErrorfW ''failed to execute partial template %q: %w'' [VString name] e))
           | None \<Rightarrow> Inr buf))"

text \<open>
  The sources hold a later variant of the same method as well (its file name is not
  known): the data is a variadic parameter and the value of a return signal is handed back
  as it is, not rendered.
\<close>

definition OnlyOneArgumentIsAllowedError :: error where
  "OnlyOneArgumentIsAllowedError = ErrorNew ''only one argument is allowed''"

definition Tmpl_Exec_variadic :: "rootContext \<Rightarrow> string \<Rightarrow> any list \<Rightarrow> error + any" where
  "Tmpl_Exec_variadic ctx name data =
     (if length data > 1 then Inl OnlyOneArgumentIsAllowedError
      else
        (case tExecuteTemplate (template ctx) name (if length data = 1 then data ! 0 else VNil) of
           (buf, err) \<Rightarrow>
             (case err of
                Some e \<Rightarrow>
                  (case errors_As_ReturnError e of
                     Some retErr_Value \<Rightarrow> Inr retErr_Value
                   | None \<Rightarrow>
                       Inl (ErrorfW ''failed to execute partial template %q: %w'' [VString name] e))
              | None \<Rightarrow> Inr (VString buf))))"

section \<open>Function identifiers of the operations\<close>

text \<open>
  Modelled from the spec: the identifiers \<open>funcs.ConvToBool\<close>, \<open>funcs.StringsIndex\<close>, ...
  are generated code (funcs.gen.go) that is not among the sources. Each operation is
  addressed by the pair of its namespace and its operation name, the pair that
  \<open>FuncNotAllowedError\<close> prints as \<open>namespace.name\<close>.
\<close>

definition funcId :: "string \<Rightarrow> string \<Rightarrow> Func" where
  "funcId ns n = \<lparr>Namespace = ns, Name = n\<rparr>"

definition ConvToBool :: Func where "ConvToBool = funcId ''conv'' ''ToBool''"
definition ConvToString :: Func where "ConvToString = funcId ''conv'' ''ToString''"
definition ConvToFloat64 :: Func where "ConvToFloat64 = funcId ''conv'' ''ToFloat64''"
definition ConvToFloat32 :: Func where "ConvToFloat32 = funcId ''conv'' ''ToFloat32''"
definition ConvToInt64 :: Func where "ConvToInt64 = funcId ''conv'' ''ToInt64''"
definition ConvToInt8 :: Func where "ConvToInt8 = funcId ''conv'' ''ToInt8''"
definition ConvToInt16 :: Func where "ConvToInt16 = funcId ''conv'' ''ToInt16''"
definition ConvToInt32 :: Func where "ConvToInt32 = funcId ''conv'' ''ToInt32''"
definition ConvToInt :: Func where "ConvToInt = funcId ''conv'' ''ToInt''"
definition ConvToUint64 :: Func where "ConvToUint64 = funcId ''conv'' ''ToUint64''"
definition ConvToUint8 :: Func where "ConvToUint8 = funcId ''conv'' ''ToUint8''"
definition ConvToUint16 :: Func where "ConvToUint16 = funcId ''conv'' ''ToUint16''"
definition ConvToUint32 :: Func where "ConvToUint32 = funcId ''conv'' ''ToUint32''"
definition ConvToUint :: Func where "ConvToUint = funcId ''conv'' ''ToUint''"
definition SliceSort :: Func where "SliceSort = funcId ''slice'' ''Sort''"
definition SliceUnique :: Func where "SliceUnique = funcId ''slice'' ''Unique''"
definition StringsIndex :: Func where "StringsIndex = funcId ''strings'' ''Index''"
definition StringsIndexAny :: Func where "StringsIndexAny = funcId ''strings'' ''IndexAny''"
definition StringsToLower :: Func where "StringsToLower = funcId ''strings'' ''ToLower''"

section \<open>Pass-through operations of the namespace strings\<close>

text \<open>
  \<open>strings.Index\<close>, \<open>strings.IndexAny\<close> and \<open>strings.ToLower\<close> of the Go standard library,
  on strings of ASCII characters: the index of the first occurrence, or \<open>-1\<close>.
\<close>

fun strings_Index_from :: "nat \<Rightarrow> string \<Rightarrow> string \<Rightarrow> int" where
  "strings_Index_from i [] substr = (if substr = [] then int i else - 1)"
| "strings_Index_from i (c # s) substr =
     (if take (length substr) (c # s) = substr then int i
      else strings_Index_from (Suc i) s substr)"

definition strings_Index :: "string \<Rightarrow> string \<Rightarrow> int" where
  "strings_Index s substr = strings_Index_from 0 s substr"

fun strings_IndexAny_from :: "nat \<Rightarrow> string \<Rightarrow> string \<Rightarrow> int" where
  "strings_IndexAny_from i [] chars = - 1"
| "strings_IndexAny_from i (c # s) chars =
     (if c \<in> set chars then int i else strings_IndexAny_from (Suc i) s chars)"

definition strings_IndexAny :: "string \<Rightarrow> string \<Rightarrow> int" where
  "strings_IndexAny s chars = strings_IndexAny_from 0 s chars"

definition toLowerChar :: "char \<Rightarrow> char" where
  "toLowerChar c =
     (if 65 \<le> (of_char c :: nat) \<and> (of_char c :: nat) \<le> 90
      then char_of ((of_char c :: nat) + 32) else c)"

definition strings_ToLower :: "string \<Rightarrow> string" where
  "strings_ToLower s = map toLowerChar s"

text \<open>The methods of \<open>Strings\<close> (fn_strings.go).\<close>

definition Strings_Index :: "rootContext \<Rightarrow> string \<Rightarrow> string \<Rightarrow> error + int" where
  "Strings_Index ctx s substr =
     (if StringsIndex \<notin> allowedFunctionSet ctx then Inl (FuncNotAllowedError StringsIndex)
      else Inr (strings_Index s substr))"

definition Strings_IndexAny :: "rootContext \<Rightarrow> string \<Rightarrow> string \<Rightarrow> error + int" where
  "Strings_IndexAny ctx s1 chars = Inr (strings_IndexAny s1 chars)"

definition Strings_ToLower :: "rootContext \<Rightarrow> string \<Rightarrow> error + string" where
  "Strings_ToLower ctx s =
     (if StringsToLower \<notin> allowedFunctionSet ctx then Inl (FuncNotAllowedError StringsToLower)
      else Inr (strings_ToLower s))"

section \<open>The namespace regexp\<close>

text \<open>
  \<open>Regexp.FindAllStringIndex\<close>. Package regexp is a parameter: \<open>regexp.Compile\<close> gives an
  error or the compiled expression, which is taken by what its method
  \<open>FindAllStringIndex\<close> answers. The method checks, and reports, the pair of
  \<open>FindAllString\<close>, as its source does.
\<close>

definition RegexpFindAllString :: Func where
  "RegexpFindAllString = funcId ''regexp'' ''FindAllString''"

definition RegexpFindAllStringIndex :: Func where
  "RegexpFindAllStringIndex = funcId ''regexp'' ''FindAllStringIndex''"

definition Regexp_FindAllStringIndex ::
  "(string \<Rightarrow> error + (string \<Rightarrow> int \<Rightarrow> int list list)) \<Rightarrow> rootContext \<Rightarrow> string \<Rightarrow> string \<Rightarrow> int
     \<Rightarrow> error + int list list" where
  "Regexp_FindAllStringIndex regexp_Compile ctx pattern s n =
     (if RegexpFindAllString \<notin> allowedFunctionSet ctx
      then Inl (FuncNotAllowedError RegexpFindAllString)
      else
        (case regexp_Compile pattern of
           Inl err \<Rightarrow> Inl err
         | Inr re \<Rightarrow> Inr (re s n)))"

section \<open>The store of backing arrays\<close>

text \<open>
  A slice value \<open>VSlice a\<close> refers to the backing array at address \<open>a\<close>; the array's
  constructor is the element type of the slice (\<open>OtherArr\<close>: any element type the
  package does not name). A slice covers its whole array: spare capacity and sub-slices
  are not modelled. \<open>brk\<close> is the first address that is not allocated; allocation takes
  it and moves it on.
\<close>

datatype elems =
    AnyArr "any list"
  | BoolArr "bool list"
  | Float32Arr "32 word list"
  | Float64Arr "64 word list"
  | StringArr "string list"
  | IntArr "64 word list"
  | Int8Arr "8 word list"
  | Int16Arr "16 word list"
  | Int32Arr "32 word list"
  | Int64Arr "64 word list"
  | UintArr "64 word list"
  | Uint8Arr "8 word list"
  | Uint16Arr "16 word list"
  | Uint32Arr "32 word list"
  | Uint64Arr "64 word list"
  | OtherArr

record store =
  cells :: "addr \<Rightarrow> elems"
  brk :: addr

definition alloc :: "store \<Rightarrow> elems \<Rightarrow> addr \<times> store" where
  "alloc st xs = (brk st, st\<lparr>cells := (cells st)(brk st := xs), brk := Suc (brk st)\<rparr>)"

section \<open>Floating-point numbers\<close>

text \<open>
  A \<open>float64\<close> is its IEEE 754 bit pattern, a \<open>float32\<close> likewise. Equality and order are
  read off the bit pattern: a NaN is neither equal to nor less than anything, and the other
  values are ordered by sign and magnitude (\<open>+0\<close> and \<open>-0\<close> are equal). Parsing and the
  conversions between numbers round, and a conversion to an integer that does not fit is
  implementation-defined in Go: these are the parameters of the record \<open>goFloat\<close>.
\<close>

definition isNaN64 :: "64 word \<Rightarrow> bool" where
  "isNaN64 w =
     (w AND 0x7FF0000000000000 = 0x7FF0000000000000 \<and> w AND 0x000FFFFFFFFFFFFF \<noteq> 0)"

definition float64_key :: "64 word \<Rightarrow> int" where
  "float64_key w =
     (if bit w 63 then - uint (w AND 0x7FFFFFFFFFFFFFFF) else uint (w AND 0x7FFFFFFFFFFFFFFF))"

definition float64_eq :: "64 word \<Rightarrow> 64 word \<Rightarrow> bool" where
  "float64_eq a b = (\<not> isNaN64 a \<and> \<not> isNaN64 b \<and> float64_key a = float64_key b)"

definition float64_less :: "64 word \<Rightarrow> 64 word \<Rightarrow> bool" where
  "float64_less a b = (\<not> isNaN64 a \<and> \<not> isNaN64 b \<and> float64_key a < float64_key b)"

definition isNaN32 :: "32 word \<Rightarrow> bool" where
  "isNaN32 w = (w AND 0x7F800000 = 0x7F800000 \<and> w AND 0x007FFFFF \<noteq> 0)"

definition float32_key :: "32 word \<Rightarrow> int" where
  "float32_key w = (if bit w 31 then - uint (w AND 0x7FFFFFFF) else uint (w AND 0x7FFFFFFF))"

definition float32_eq :: "32 word \<Rightarrow> 32 word \<Rightarrow> bool" where
  "float32_eq a b = (\<not> isNaN32 a \<and> \<not> isNaN32 b \<and> float32_key a = float32_key b)"

text \<open>The constants \<open>1\<close>, \<open>0\<close>, \<open>math.MaxFloat32\<close> and \<open>-math.MaxFloat32\<close> as \<open>float64\<close>.\<close>

definition float64_one :: "64 word" where "float64_one = 0x3FF0000000000000"
definition float64_zero :: "64 word" where "float64_zero = 0"
definition MaxFloat32 :: "64 word" where "MaxFloat32 = 0x47EFFFFFE0000000"
definition negMaxFloat32 :: "64 word" where "negMaxFloat32 = 0xC7EFFFFFE0000000"

record goFloat =
  ParseFloat :: "string \<Rightarrow> error + 64 word"
  float64_of_int64 :: "64 word \<Rightarrow> 64 word"
  float64_of_uint64 :: "64 word \<Rightarrow> 64 word"
  float64_of_float32 :: "32 word \<Rightarrow> 64 word"
  float32_of_float64 :: "64 word \<Rightarrow> 32 word"
  int64_of_float64 :: "64 word \<Rightarrow> 64 word"
  uint64_of_float64 :: "64 word \<Rightarrow> 64 word"

section \<open>Package strconv: ParseUint and ParseInt\<close>

text \<open>
  \<open>strconv.ParseUint(s, 0, 64)\<close> and \<open>strconv.ParseInt(s, 0, 64)\<close> of the Go standard
  library, as the conversions call them: base 0 (a prefix picks the base, underscores may
  separate digits) and 64 bits. The accumulator is a \<open>uint64\<close>, written as a natural
  number with the wrap-around of the addition written out.
\<close>

definition lower :: "char \<Rightarrow> char" where
  "lower c = char_of ((of_char c :: nat) OR 32)"

definition digitVal :: "char \<Rightarrow> nat option" where
  "digitVal c =
     (if 48 \<le> (of_char c :: nat) \<and> (of_char c :: nat) \<le> 57 then Some ((of_char c :: nat) - 48)
      else if 97 \<le> (of_char (lower c) :: nat) \<and> (of_char (lower c) :: nat) \<le> 122
      then Some ((of_char (lower c) :: nat) - 97 + 10)
      else None)"

definition maxUint64 :: nat where
  "maxUint64 = 2 ^ 64 - 1"

fun parseUintLoop :: "nat \<Rightarrow> string \<Rightarrow> nat \<Rightarrow> bool \<Rightarrow> numErr + nat \<times> bool" where
  "parseUintLoop base [] n underscores = Inr (n, underscores)"
| "parseUintLoop base (c # s) n underscores =
     (if c = CHR ''_'' then parseUintLoop base s n True
      else
        (case digitVal c of
           None \<Rightarrow> Inl ErrSyntax
         | Some d \<Rightarrow>
             if d \<ge> base then Inl ErrSyntax
             else if n \<ge> maxUint64 div base + 1 then Inl ErrRange
             else if (n * base + d) mod 2 ^ 64 < n * base \<or> (n * base + d) mod 2 ^ 64 > maxUint64
             then Inl ErrRange
             else parseUintLoop base s ((n * base + d) mod 2 ^ 64) underscores))"

fun underscoreLoop :: "bool \<Rightarrow> char \<Rightarrow> string \<Rightarrow> bool" where
  "underscoreLoop hex i [] = (i \<noteq> CHR ''_'')"
| "underscoreLoop hex i (c # s) =
     (if (48 \<le> (of_char c :: nat) \<and> (of_char c :: nat) \<le> 57) \<or>
         (hex \<and> 97 \<le> (of_char (lower c) :: nat) \<and> (of_char (lower c) :: nat) \<le> 102)
      then underscoreLoop hex (CHR ''0'') s
      else if c = CHR ''_'' then (if i \<noteq> CHR ''0'' then False else underscoreLoop hex (CHR ''_'') s)
      else if i = CHR ''_'' then False
      else underscoreLoop hex (CHR ''!'') s)"

definition hasBasePrefix :: "string \<Rightarrow> bool" where
  "hasBasePrefix s =
     (length s \<ge> 2 \<and> s ! 0 = CHR ''0'' \<and>
      (lower (s ! 1) = CHR ''b'' \<or> lower (s ! 1) = CHR ''o'' \<or> lower (s ! 1) = CHR ''x''))"

definition underscoreOK :: "string \<Rightarrow> bool" where
  "underscoreOK s0 =
     (let s = (if length s0 \<ge> 1 \<and> (s0 ! 0 = CHR ''-'' \<or> s0 ! 0 = CHR ''+'') then drop 1 s0 else s0)
      in if hasBasePrefix s
         then underscoreLoop (lower (s ! 1) = CHR ''x'') (CHR ''0'') (drop 2 s)
         else underscoreLoop False (CHR ''^'') s)"

definition ParseUint :: "string \<Rightarrow> numErr + nat" where
  "ParseUint s =
     (if s = [] then Inl ErrSyntax
      else
        (case (if s ! 0 = CHR ''0''
               then (if length s \<ge> 3 \<and> lower (s ! 1) = CHR ''b'' then (2, drop 2 s)
                     else if length s \<ge> 3 \<and> lower (s ! 1) = CHR ''o'' then (8, drop 2 s)
                     else if length s \<ge> 3 \<and> lower (s ! 1) = CHR ''x'' then (16, drop 2 s)
                     else (8, drop 1 s))
               else (10, s)) of
           (base, digits) \<Rightarrow>
             (case parseUintLoop base digits 0 False of
                Inl e \<Rightarrow> Inl e
              | Inr (n, underscores) \<Rightarrow>
                  if underscores \<and> \<not> underscoreOK s then Inl ErrSyntax else Inr n)))"

definition ParseInt :: "string \<Rightarrow> numErr + int" where
  "ParseInt s0 =
     (if s0 = [] then Inl ErrSyntax
      else
        (case ParseUint (if s0 ! 0 = CHR ''+'' \<or> s0 ! 0 = CHR ''-'' then drop 1 s0 else s0) of
           Inl e \<Rightarrow> Inl e
         | Inr un \<Rightarrow>
             if s0 ! 0 \<noteq> CHR ''-'' \<and> un \<ge> 2 ^ 63 then Inl ErrRange
             else if s0 ! 0 = CHR ''-'' \<and> un > 2 ^ 63 then Inl ErrRange
             else Inr (if s0 ! 0 = CHR ''-'' then - int un else int un)))"

section \<open>The coercion engine (fn_conv.go)\<close>

text \<open>
  \<open>reflect.Indirect(reflect.ValueOf(v))\<close>: the pointee of a pointer, any other value itself.
  The kind switch that follows it is the case distinction on the constructor; \<open>nil\<close>
  (kind Invalid), slices, maps, pointers, strings behind a pointer and opaque values fall
  to its default branch.
\<close>

fun Indirect :: "any \<Rightarrow> any" where
  "Indirect (VPointer a v) = v"
| "Indirect v = v"

definition removeCommas :: "string \<Rightarrow> string" where
  "removeCommas str = (if CHR '','' \<in> set str then filter (\<lambda>c. c \<noteq> CHR '','') str else str)"

definition strToFloat64 :: "goFloat \<Rightarrow> string \<Rightarrow> error + 64 word" where
  "strToFloat64 fp str =
     (case ParseInt (removeCommas str) of
        Inr iv \<Rightarrow> Inr (float64_of_int64 fp (word_of_int iv))
      | Inl _ \<Rightarrow>
          (case ParseFloat fp (removeCommas str) of
             Inl err \<Rightarrow>
               Inl (ErrorfW ''could not convert %q to float64: %w'' [VString (removeCommas str)] err)
           | Inr fv \<Rightarrow> Inr fv))"

definition toBool :: "goFloat \<Rightarrow> any \<Rightarrow> bool" where
  "toBool fp v =
     (case v of
        VBool b \<Rightarrow> b
      | VString str \<Rightarrow>
          if strings_ToLower str \<in> {''1'', ''t'', ''true'', ''yes''} then True
          else (case strToFloat64 fp (strings_ToLower str) of
                  Inr f \<Rightarrow> float64_eq f float64_one
                | Inl _ \<Rightarrow> float64_eq float64_zero float64_one)
      | _ \<Rightarrow>
          (case Indirect v of
             VInt8 i \<Rightarrow> sint i = 1
           | VInt16 i \<Rightarrow> sint i = 1
           | VInt32 i \<Rightarrow> sint i = 1
           | VInt64 i \<Rightarrow> sint i = 1
           | VInt i \<Rightarrow> sint i = 1
           | VUint8 u \<Rightarrow> unat u = 1
           | VUint16 u \<Rightarrow> unat u = 1
           | VUint32 u \<Rightarrow> unat u = 1
           | VUint64 u \<Rightarrow> unat u = 1
           | VUint u \<Rightarrow> unat u = 1
           | VFloat32 f \<Rightarrow> float64_eq (float64_of_float32 fp f) float64_one
           | VFloat64 f \<Rightarrow> float64_eq f float64_one
           | _ \<Rightarrow> False))"

text \<open>
  \<open>toString\<close>. A value with a \<open>String\<close> method is an opaque value here, and \<open>fmt.Sprint\<close>
  calls that method too, so the \<open>fmt.Stringer\<close> branch and the last line agree on it.
  A \<open>[]byte\<close> is a slice whose backing array holds \<open>uint8\<close>.
\<close>

definition toString :: "(addr \<Rightarrow> elems) \<Rightarrow> (any \<Rightarrow> string) \<Rightarrow> any \<Rightarrow> string" where
  "toString mem fmtv v =
     (case v of
        VNil \<Rightarrow> []
      | VString s \<Rightarrow> s
      | VSlice a \<Rightarrow>
          (case mem a of
             Uint8Arr s \<Rightarrow> map (\<lambda>b. char_of (unat b)) s
           | _ \<Rightarrow> Sprint fmtv v)
      | _ \<Rightarrow> Sprint fmtv v)"

definition toFloat64 :: "goFloat \<Rightarrow> any \<Rightarrow> error + 64 word" where
  "toFloat64 fp v =
     (case v of
        VString str \<Rightarrow> strToFloat64 fp str
      | _ \<Rightarrow>
          (case Indirect v of
             VInt8 i \<Rightarrow> Inr (float64_of_int64 fp (scast i))
           | VInt16 i \<Rightarrow> Inr (float64_of_int64 fp (scast i))
           | VInt32 i \<Rightarrow> Inr (float64_of_int64 fp (scast i))
           | VInt64 i \<Rightarrow> Inr (float64_of_int64 fp i)
           | VInt i \<Rightarrow> Inr (float64_of_int64 fp i)
           | VUint8 u \<Rightarrow> Inr (float64_of_uint64 fp (ucast u))
           | VUint16 u \<Rightarrow> Inr (float64_of_uint64 fp (ucast u))
           | VUint32 u \<Rightarrow> Inr (float64_of_uint64 fp (ucast u))
           | VUint u \<Rightarrow> Inr (float64_of_uint64 fp u)
           | VUint64 u \<Rightarrow> Inr (float64_of_uint64 fp u)
           | VFloat32 f \<Rightarrow> Inr (float64_of_float32 fp f)
           | VFloat64 f \<Rightarrow> Inr f
           | VBool b \<Rightarrow> Inr (if b then float64_one else float64_zero)
           | _ \<Rightarrow> Inl (Errorf ''could not convert %v to float64'' [v])))"

definition toFloat32 :: "goFloat \<Rightarrow> any \<Rightarrow> error + 32 word" where
  "toFloat32 fp v =
     (case toFloat64 fp v of
        Inl err \<Rightarrow> Inl err
      | Inr f \<Rightarrow>
          if float64_less MaxFloat32 f \<or> float64_less f negMaxFloat32
          then Inl (Errorf ''could not convert %f to float32, would overflow'' [VFloat64 f])
          else Inr (float32_of_float64 fp f))"

definition strToInt64 :: "goFloat \<Rightarrow> string \<Rightarrow> error + 64 word" where
  "strToInt64 fp str =
     (case ParseInt (removeCommas str) of
        Inr iv \<Rightarrow> Inr (word_of_int iv)
      | Inl _ \<Rightarrow>
          (case ParseFloat fp (removeCommas str) of
             Inl err \<Rightarrow>
               Inl (ErrorfW ''could not convert %q to int64: %w'' [VString (removeCommas str)] err)
           | Inr fv \<Rightarrow> Inr (int64_of_float64 fp fv)))"

definition MaxInt64 :: int where "MaxInt64 = 2 ^ 63 - 1"
definition MinInt64 :: int where "MinInt64 = - (2 ^ 63)"

definition toInt64 :: "goFloat \<Rightarrow> any \<Rightarrow> error + 64 word" where
  "toInt64 fp v =
     (case v of
        VString str \<Rightarrow> strToInt64 fp str
      | _ \<Rightarrow>
          (case Indirect v of
             VInt8 i \<Rightarrow> Inr (scast i)
           | VInt16 i \<Rightarrow> Inr (scast i)
           | VInt32 i \<Rightarrow> Inr (scast i)
           | VInt64 i \<Rightarrow> Inr i
           | VInt i \<Rightarrow> Inr i
           | VUint8 u \<Rightarrow> Inr (ucast u)
           | VUint16 u \<Rightarrow> Inr (ucast u)
           | VUint32 u \<Rightarrow> Inr (ucast u)
           | VUint tv \<Rightarrow>
               if uint tv > MaxInt64
               then Inl (Errorf ''could not convert %d to int64, would overflow'' [VUint64 tv])
               else Inr tv
           | VUint64 tv \<Rightarrow>
               if uint tv > MaxInt64
               then Inl (Errorf ''could not convert %d to int64, would overflow'' [VUint64 tv])
               else Inr tv
           | VFloat32 f \<Rightarrow> Inr (int64_of_float64 fp (float64_of_float32 fp f))
           | VFloat64 f \<Rightarrow> Inr (int64_of_float64 fp f)
           | VBool b \<Rightarrow> Inr (if b then 1 else 0)
           | _ \<Rightarrow> Inl (Errorf ''could not convert %v to int64'' [v])))"

text \<open>
  The generic \<open>toInt[T]\<close>: the result type \<open>T\<close> is the width of the word returned, and
  \<open>T(i64)\<close> keeps the low bits.
\<close>

definition toInt :: "goFloat \<Rightarrow> any \<Rightarrow> int \<Rightarrow> int \<Rightarrow> error + 'a::len word" where
  "toInt fp v minValue maxValue =
     (case toInt64 fp v of
        Inl err \<Rightarrow> Inl err
      | Inr i64 \<Rightarrow>
          if sint i64 < minValue \<or> sint i64 > maxValue
          then Inl (Errorf ''could not convert %d, would overflow'' [VInt64 i64])
          else Inr (ucast i64))"

definition strToUint64 :: "goFloat \<Rightarrow> string \<Rightarrow> error + 64 word" where
  "strToUint64 fp str =
     (case ParseUint (removeCommas str) of
        Inr iv \<Rightarrow> Inr (of_nat iv)
      | Inl _ \<Rightarrow>
          (case ParseFloat fp (removeCommas str) of
             Inl err \<Rightarrow>
               Inl (ErrorfW ''could not convert %q to uint64: %w'' [VString (removeCommas str)] err)
           | Inr fv \<Rightarrow> Inr (uint64_of_float64 fp fv)))"

definition toUint64 :: "goFloat \<Rightarrow> any \<Rightarrow> error + 64 word" where
  "toUint64 fp v =
     (case v of
        VString str \<Rightarrow> strToUint64 fp str
      | _ \<Rightarrow>
          (case Indirect v of
             VUint8 u \<Rightarrow> Inr (ucast u)
           | VUint16 u \<Rightarrow> Inr (ucast u)
           | VUint32 u \<Rightarrow> Inr (ucast u)
           | VUint64 u \<Rightarrow> Inr u
           | VUint u \<Rightarrow> Inr u
           | VInt8 i \<Rightarrow> Inr (scast i)
           | VInt16 i \<Rightarrow> Inr (scast i)
           | VInt32 i \<Rightarrow> Inr (scast i)
           | VInt tv \<Rightarrow>
               if sint tv < 0
               then Inl (Errorf ''could not convert %d to int64, would overflow'' [VInt64 tv])
               else Inr tv
           | VInt64 tv \<Rightarrow>
               if sint tv < 0
               then Inl (Errorf ''could not convert %d to int64, would overflow'' [VInt64 tv])
               else Inr tv
           | VFloat32 f \<Rightarrow> Inr (uint64_of_float64 fp (float64_of_float32 fp f))
           | VFloat64 f \<Rightarrow> Inr (uint64_of_float64 fp f)
           | VBool b \<Rightarrow> Inr (if b then 1 else 0)
           | _ \<Rightarrow> Inl (Errorf ''could not convert %v to int64'' [v])))"

definition toUint :: "goFloat \<Rightarrow> any \<Rightarrow> nat \<Rightarrow> error + 'a::len word" where
  "toUint fp v maxValue =
     (case toUint64 fp v of
        Inl err \<Rightarrow> Inl err
      | Inr i64 \<Rightarrow>
          if unat i64 > maxValue
          then Inl (Errorf ''could not convert %d, would overflow'' [VUint64 i64])
          else Inr (ucast i64))"

text \<open>The methods of \<open>Conv\<close>: the gate, then the conversion.\<close>

definition Conv_ToBool :: "goFloat \<Rightarrow> rootContext \<Rightarrow> any \<Rightarrow> error + bool" where
  "Conv_ToBool fp ctx v =
     (if ConvToBool \<notin> allowedFunctionSet ctx then Inl (FuncNotAllowedError ConvToBool)
      else Inr (toBool fp v))"

definition Conv_ToString ::
  "(addr \<Rightarrow> elems) \<Rightarrow> (any \<Rightarrow> string) \<Rightarrow> rootContext \<Rightarrow> any \<Rightarrow> error + string" where
  "Conv_ToString mem fmtv ctx v =
     (if ConvToString \<notin> allowedFunctionSet ctx then Inl (FuncNotAllowedError ConvToString)
      else Inr (toString mem fmtv v))"

definition Conv_ToFloat64 :: "goFloat \<Rightarrow> rootContext \<Rightarrow> any \<Rightarrow> error + 64 word" where
  "Conv_ToFloat64 fp ctx v =
     (if ConvToFloat64 \<notin> allowedFunctionSet ctx then Inl (FuncNotAllowedError ConvToFloat64)
      else toFloat64 fp v)"

definition Conv_ToFloat32 :: "goFloat \<Rightarrow> rootContext \<Rightarrow> any \<Rightarrow> error + 32 word" where
  "Conv_ToFloat32 fp ctx v =
     (if ConvToFloat32 \<notin> allowedFunctionSet ctx then Inl (FuncNotAllowedError ConvToFloat32)
      else toFloat32 fp v)"

definition Conv_ToInt64 :: "goFloat \<Rightarrow> rootContext \<Rightarrow> any \<Rightarrow> error + 64 word" where
  "Conv_ToInt64 fp ctx v =
     (if ConvToInt64 \<notin> allowedFunctionSet ctx then Inl (FuncNotAllowedError ConvToInt64)
      else toInt64 fp v)"

definition Conv_ToInt8 :: "goFloat \<Rightarrow> rootContext \<Rightarrow> any \<Rightarrow> error + 8 word" where
  "Conv_ToInt8 fp ctx v =
     (if ConvToInt8 \<notin> allowedFunctionSet ctx then Inl (FuncNotAllowedError ConvToInt8)
      else toInt fp v (- 128) 127)"

definition Conv_ToInt16 :: "goFloat \<Rightarrow> rootContext \<Rightarrow> any \<Rightarrow> error + 16 word" where
  "Conv_ToInt16 fp ctx v =
     (if ConvToInt16 \<notin> allowedFunctionSet ctx then Inl (FuncNotAllowedError ConvToInt16)
      else toInt fp v (- 32768) 32767)"

definition Conv_ToInt32 :: "goFloat \<Rightarrow> rootContext \<Rightarrow> any \<Rightarrow> error + 32 word" where
  "Conv_ToInt32 fp ctx v =
     (if ConvToInt32 \<notin> allowedFunctionSet ctx then Inl (FuncNotAllowedError ConvToInt32)
      else toInt fp v (- 2147483648) 2147483647)"

definition Conv_ToInt :: "goFloat \<Rightarrow> rootContext \<Rightarrow> any \<Rightarrow> error + 64 word" where
  "Conv_ToInt fp ctx v =
     (if ConvToInt \<notin> allowedFunctionSet ctx then Inl (FuncNotAllowedError ConvToInt)
      else toInt fp v MinInt64 MaxInt64)"

definition Conv_ToUint64 :: "goFloat \<Rightarrow> rootContext \<Rightarrow> any \<Rightarrow> error + 64 word" where
  "Conv_ToUint64 fp ctx v =
     (if ConvToUint64 \<notin> allowedFunctionSet ctx then Inl (FuncNotAllowedError ConvToUint64)
      else toUint64 fp v)"

definition Conv_ToUint8 :: "goFloat \<Rightarrow> rootContext \<Rightarrow> any \<Rightarrow> error + 8 word" where
  "Conv_ToUint8 fp ctx v =
     (if ConvToUint8 \<notin> allowedFunctionSet ctx then Inl (FuncNotAllowedError ConvToUint8)
      else toUint fp v 255)"

definition Conv_ToUint16 :: "goFloat \<Rightarrow> rootContext \<Rightarrow> any \<Rightarrow> error + 16 word" where
  "Conv_ToUint16 fp ctx v =
     (if ConvToUint16 \<notin> allowedFunctionSet ctx then Inl (FuncNotAllowedError ConvToUint16)
      else toUint fp v 65535)"

definition Conv_ToUint32 :: "goFloat \<Rightarrow> rootContext \<Rightarrow> any \<Rightarrow> error + 32 word" where
  "Conv_ToUint32 fp ctx v =
     (if ConvToUint32 \<notin> allowedFunctionSet ctx then Inl (FuncNotAllowedError ConvToUint32)
      else toUint fp v 4294967295)"

definition Conv_ToUint :: "goFloat \<Rightarrow> rootContext \<Rightarrow> any \<Rightarrow> error + 64 word" where
  "Conv_ToUint fp ctx v =
     (if ConvToUint \<notin> allowedFunctionSet ctx then Inl (FuncNotAllowedError ConvToUint)
      else toUint fp v maxUint64)"

section \<open>Kinds and sample environments\<close>

text \<open>
  The supported dynamic kinds of the coercion engine: boolean, string, the signed and
  unsigned integers and the floating-point numbers. \<open>nil\<close>, slices, maps, pointers and
  opaque values are of no supported kind.
\<close>

fun supportedKind :: "any \<Rightarrow> bool" where
  "supportedKind VNil = False"
| "supportedKind (VSlice a) = False"
| "supportedKind (VMap a) = False"
| "supportedKind (VPointer a v) = False"
| "supportedKind (VOpaque s) = False"
| "supportedKind v = True"

definition convFuncs :: "Func set" where
  "convFuncs =
     {ConvToBool, ConvToString, ConvToFloat64, ConvToFloat32, ConvToInt64, ConvToInt8,
      ConvToInt16, ConvToInt32, ConvToInt, ConvToUint64, ConvToUint8, ConvToUint16,
      ConvToUint32, ConvToUint}"

text \<open>
  Two floating-point environments to evaluate the conversions in: one whose \<open>ParseFloat\<close>
  accepts nothing, and one that behaves as an amd64 machine does on the text of \<open>2^63\<close>:
  \<open>ParseFloat\<close> gives the \<open>float64\<close> \<open>2^63\<close> and the conversion of that number to
  \<open>int64\<close> gives the smallest \<open>int64\<close>. A template that writes nothing, and a store with
  no array allocated.
\<close>

definition noFloat :: goFloat where
  "noFloat =
     \<lparr>ParseFloat = (\<lambda>s. Inl (NumError ''ParseFloat'' s ErrSyntax)),
      float64_of_int64 = (\<lambda>_. 0), float64_of_uint64 = (\<lambda>_. 0), float64_of_float32 = (\<lambda>_. 0),
      float32_of_float64 = (\<lambda>_. 0), int64_of_float64 = (\<lambda>_. 0), uint64_of_float64 = (\<lambda>_. 0)\<rparr>"

definition amd64Float :: goFloat where
  "amd64Float =
     \<lparr>ParseFloat = (\<lambda>s. if s = ''9223372036854775808'' then Inr 0x43E0000000000000
                          else Inl (NumError ''ParseFloat'' s ErrSyntax)),
      float64_of_int64 = (\<lambda>_. 0), float64_of_uint64 = (\<lambda>_. 0), float64_of_float32 = (\<lambda>_. 0),
      float32_of_float64 = (\<lambda>_. 0), int64_of_float64 = (\<lambda>_. 0x8000000000000000),
      uint64_of_float64 = (\<lambda>_. 0)\<rparr>"

definition emptyTemplate :: template where
  "emptyTemplate = \<lparr>tExecute = (\<lambda>_. ([], None)), tExecuteTemplate = (\<lambda>_ _. ([], None))\<rparr>"

definition emptyStore :: store where
  "emptyStore = \<lparr>cells = (\<lambda>_. OtherArr), brk = 0\<rparr>"

section \<open>Slices (namespace slice)\<close>

text \<open>The sentinel errors of the namespace.\<close>

definition ErrCannotSortAnySlice :: error where
  "ErrCannotSortAnySlice = ErrorNew ''cannot sort []any slices''"

definition ErrArgNotSlice :: error where
  "ErrArgNotSlice = ErrorNew ''argument must be a slice''"

text \<open>
  \<open>slices.Clone\<close> allocates a new backing array with the elements of the old one.
  \<open>slices.Sort\<close> and \<open>slices.SortFunc\<close> sort an array in place; they are modelled by
  insertion under the order of the element type (under \<open>cmp(a, b) < 0\<close> for \<open>SortFunc\<close>).
  Among integers, strings and booleans elements that compare equal are the same value, so
  every sorting algorithm gives this result; among floating-point numbers \<open>+0\<close>, \<open>-0\<close> and
  the NaNs may come out of Go's algorithm in another order among themselves.
\<close>

definition slices_Clone :: "store \<Rightarrow> addr \<Rightarrow> addr \<times> store" where
  "slices_Clone st a = alloc st (cells st a)"

fun insertBy :: "('a \<Rightarrow> 'a \<Rightarrow> bool) \<Rightarrow> 'a \<Rightarrow> 'a list \<Rightarrow> 'a list" where
  "insertBy lt x [] = [x]"
| "insertBy lt x (y # ys) = (if lt y x then y # insertBy lt x ys else x # y # ys)"

definition slices_Sort :: "('a \<Rightarrow> 'a \<Rightarrow> bool) \<Rightarrow> 'a list \<Rightarrow> 'a list" where
  "slices_Sort lt xs = foldr (insertBy lt) xs []"

definition slices_SortFunc :: "('a \<Rightarrow> 'a \<Rightarrow> int) \<Rightarrow> 'a list \<Rightarrow> 'a list" where
  "slices_SortFunc cmp xs = foldr (insertBy (\<lambda>a b. cmp a b < 0)) xs []"

definition sortBool :: "bool list \<Rightarrow> bool list" where
  "sortBool sl =
     slices_SortFunc (\<lambda>a b. if a = b then 0 else if \<not> a \<and> b then - 1 else 1) sl"

text \<open>
  \<open>cmp.Less\<close> on floating-point numbers, the order \<open>slices.Sort\<close> uses: a NaN is less than
  any number that is not a NaN.
\<close>

definition cmpLess64 :: "64 word \<Rightarrow> 64 word \<Rightarrow> bool" where
  "cmpLess64 x y = ((isNaN64 x \<and> \<not> isNaN64 y) \<or> float64_less x y)"

definition float32_less :: "32 word \<Rightarrow> 32 word \<Rightarrow> bool" where
  "float32_less a b = (\<not> isNaN32 a \<and> \<not> isNaN32 b \<and> float32_key a < float32_key b)"

definition cmpLess32 :: "32 word \<Rightarrow> 32 word \<Rightarrow> bool" where
  "cmpLess32 x y = ((isNaN32 x \<and> \<not> isNaN32 y) \<or> float32_less x y)"

text \<open>
  The body shared by the cases of \<open>Slice.Sort\<close>:
  \<open>sl = slices.Clone(sl); slices.Sort(sl); return sl, nil\<close>, with the sort of the element
  type of the array (\<open>sortBool\<close> for booleans).
\<close>

fun sortElems :: "elems \<Rightarrow> elems" where
  "sortElems (BoolArr sl) = BoolArr (sortBool sl)"
| "sortElems (Float32Arr sl) = Float32Arr (slices_Sort cmpLess32 sl)"
| "sortElems (Float64Arr sl) = Float64Arr (slices_Sort cmpLess64 sl)"
| "sortElems (StringArr sl) = StringArr (slices_Sort (\<lambda>a b. a < b) sl)"
| "sortElems (IntArr sl) = IntArr (slices_Sort (\<lambda>a b. sint a < sint b) sl)"
| "sortElems (Int8Arr sl) = Int8Arr (slices_Sort (\<lambda>a b. sint a < sint b) sl)"
| "sortElems (Int16Arr sl) = Int16Arr (slices_Sort (\<lambda>a b. sint a < sint b) sl)"
| "sortElems (Int32Arr sl) = Int32Arr (slices_Sort (\<lambda>a b. sint a < sint b) sl)"
| "sortElems (Int64Arr sl) = Int64Arr (slices_Sort (\<lambda>a b. sint a < sint b) sl)"
| "sortElems (UintArr sl) = UintArr (slices_Sort (\<lambda>a b. uint a < uint b) sl)"
| "sortElems (Uint8Arr sl) = Uint8Arr (slices_Sort (\<lambda>a b. uint a < uint b) sl)"
| "sortElems (Uint16Arr sl) = Uint16Arr (slices_Sort (\<lambda>a b. uint a < uint b) sl)"
| "sortElems (Uint32Arr sl) = Uint32Arr (slices_Sort (\<lambda>a b. uint a < uint b) sl)"
| "sortElems (Uint64Arr sl) = Uint64Arr (slices_Sort (\<lambda>a b. uint a < uint b) sl)"
| "sortElems (AnyArr sl) = AnyArr sl"
| "sortElems OtherArr = OtherArr"

definition cloneAndSort :: "store \<Rightarrow> addr \<Rightarrow> (error + any) \<times> store" where
  "cloneAndSort st a =
     (case slices_Clone st a of
        (sl, st1) \<Rightarrow>
          (Inr (VSlice sl), st1\<lparr>cells := (cells st1)(sl := sortElems (cells st1 sl))\<rparr>))"

text \<open>
  \<open>Slice.Sort\<close>: the type switch is the case distinction on the element type of the
  array; it has no case for \<open>[]uint\<close>.
\<close>

definition Slice_Sort :: "rootContext \<Rightarrow> store \<Rightarrow> any \<Rightarrow> (error + any) \<times> store" where
  "Slice_Sort ctx st s =
     (if SliceSort \<notin> allowedFunctionSet ctx then (Inl (FuncNotAllowedError SliceSort), st)
      else
        (case s of
           VSlice a \<Rightarrow>
             (case cells st a of
                AnyArr sl \<Rightarrow> (Inl ErrCannotSortAnySlice, st)
              | BoolArr sl \<Rightarrow> cloneAndSort st a
              | Float32Arr sl \<Rightarrow> cloneAndSort st a
              | Float64Arr sl \<Rightarrow> cloneAndSort st a
              | StringArr sl \<Rightarrow> cloneAndSort st a
              | IntArr sl \<Rightarrow> cloneAndSort st a
              | Int8Arr sl \<Rightarrow> cloneAndSort st a
              | Int16Arr sl \<Rightarrow> cloneAndSort st a
              | Int32Arr sl \<Rightarrow> cloneAndSort st a
              | Int64Arr sl \<Rightarrow> cloneAndSort st a
              | Uint8Arr sl \<Rightarrow> cloneAndSort st a
              | Uint16Arr sl \<Rightarrow> cloneAndSort st a
              | Uint32Arr sl \<Rightarrow> cloneAndSort st a
              | Uint64Arr sl \<Rightarrow> cloneAndSort st a
              | UintArr sl \<Rightarrow> (Inl ErrArgNotSlice, st)
              | OtherArr \<Rightarrow> (Inl ErrArgNotSlice, st))
         | _ \<Rightarrow> (Inl ErrArgNotSlice, st)))"

text \<open>
  \<open>uniqSlice\<close>. The map \<open>seen\<close> is the list of its keys. Looking a key up in a map hashes
  it: on a key of interface type that holds a slice or a map this panics, and the panic
  names the dynamic type of that key. \<open>hashKey\<close> is the panic of hashing a key, if there
  is one; the keys of the typed slices can always be hashed. Keys are compared with \<open>==\<close>:
  among floating-point numbers a NaN equals nothing, so a NaN is never found and each one
  is added; pointers are equal when their addresses are.
\<close>

fun hashable :: "any \<Rightarrow> bool" where
  "hashable (VSlice a) = False"
| "hashable (VMap a) = False"
| "hashable v = True"

definition hashKey :: "any \<Rightarrow> error option" where
  "hashKey k = (if hashable k then None else Some (HashPanic k))"

definition anyEq :: "any \<Rightarrow> any \<Rightarrow> bool" where
  "anyEq x y =
     (case x of
        VFloat32 a \<Rightarrow> (case y of VFloat32 b \<Rightarrow> float32_eq a b | _ \<Rightarrow> False)
      | VFloat64 a \<Rightarrow> (case y of VFloat64 b \<Rightarrow> float64_eq a b | _ \<Rightarrow> False)
      | VPointer a v \<Rightarrow> (case y of VPointer b w \<Rightarrow> a = b | _ \<Rightarrow> False)
      | _ \<Rightarrow> x = y)"

fun uniqLoop ::
  "('a \<Rightarrow> error option) \<Rightarrow> ('a \<Rightarrow> 'a \<Rightarrow> bool) \<Rightarrow> 'a list \<Rightarrow> 'a list \<Rightarrow> 'a list \<Rightarrow> error + 'a list" where
  "uniqLoop hash eq [] seen result = Inr result"
| "uniqLoop hash eq (v # sl) seen result =
     (case hash v of
        Some panic \<Rightarrow> Inl panic
      | None \<Rightarrow>
          if list_ex (\<lambda>k. eq k v) seen then uniqLoop hash eq sl seen result
          else uniqLoop hash eq sl (v # seen) (result @ [v]))"

definition uniqSlice :: "('a \<Rightarrow> error option) \<Rightarrow> ('a \<Rightarrow> 'a \<Rightarrow> bool) \<Rightarrow> 'a list \<Rightarrow> error + 'a list" where
  "uniqSlice hash eq sl = uniqLoop hash eq sl [] []"

definition wrapElems :: "('a list \<Rightarrow> elems) \<Rightarrow> error + 'a list \<Rightarrow> error + elems" where
  "wrapElems arr r = (case r of Inl e \<Rightarrow> Inl e | Inr xs \<Rightarrow> Inr (arr xs))"

fun uniqElems :: "elems \<Rightarrow> error + elems" where
  "uniqElems (AnyArr sl) = wrapElems AnyArr (uniqSlice hashKey anyEq sl)"
| "uniqElems (BoolArr sl) = wrapElems BoolArr (uniqSlice (\<lambda>_. None) (\<lambda>a b. a = b) sl)"
| "uniqElems (Float32Arr sl) = wrapElems Float32Arr (uniqSlice (\<lambda>_. None) float32_eq sl)"
| "uniqElems (Float64Arr sl) = wrapElems Float64Arr (uniqSlice (\<lambda>_. None) float64_eq sl)"
| "uniqElems (StringArr sl) = wrapElems StringArr (uniqSlice (\<lambda>_. None) (\<lambda>a b. a = b) sl)"
| "uniqElems (IntArr sl) = wrapElems IntArr (uniqSlice (\<lambda>_. None) (\<lambda>a b. a = b) sl)"
| "uniqElems (Int8Arr sl) = wrapElems Int8Arr (uniqSlice (\<lambda>_. None) (\<lambda>a b. a = b) sl)"
| "uniqElems (Int16Arr sl) = wrapElems Int16Arr (uniqSlice (\<lambda>_. None) (\<lambda>a b. a = b) sl)"
| "uniqElems (Int32Arr sl) = wrapElems Int32Arr (uniqSlice (\<lambda>_. None) (\<lambda>a b. a = b) sl)"
| "uniqElems (Int64Arr sl) = wrapElems Int64Arr (uniqSlice (\<lambda>_. None) (\<lambda>a b. a = b) sl)"
| "uniqElems (UintArr sl) = wrapElems UintArr (uniqSlice (\<lambda>_. None) (\<lambda>a b. a = b) sl)"
| "uniqElems (Uint8Arr sl) = wrapElems Uint8Arr (uniqSlice (\<lambda>_. None) (\<lambda>a b. a = b) sl)"
| "uniqElems (Uint16Arr sl) = wrapElems Uint16Arr (uniqSlice (\<lambda>_. None) (\<lambda>a b. a = b) sl)"
| "uniqElems (Uint32Arr sl) = wrapElems Uint32Arr (uniqSlice (\<lambda>_. None) (\<lambda>a b. a = b) sl)"
| "uniqElems (Uint64Arr sl) = wrapElems Uint64Arr (uniqSlice (\<lambda>_. None) (\<lambda>a b. a = b) sl)"
| "uniqElems OtherArr = Inr OtherArr"

text \<open>
  The body shared by the cases of \<open>Slice.Unique\<close>, \<open>return uniqSlice(sl), nil\<close>: the result
  is a new array. (The array that a panicking call has made is unreachable and is left out
  of the store.)
\<close>

definition uniqToNew :: "store \<Rightarrow> addr \<Rightarrow> (error + any) \<times> store" where
  "uniqToNew st a =
     (case uniqElems (cells st a) of
        Inl e \<Rightarrow> (Inl e, st)
      | Inr result \<Rightarrow> (case alloc st result of (r, st1) \<Rightarrow> (Inr (VSlice r), st1)))"

definition Slice_Unique :: "rootContext \<Rightarrow> store \<Rightarrow> any \<Rightarrow> (error + any) \<times> store" where
  "Slice_Unique ctx st s =
     (if SliceUnique \<notin> allowedFunctionSet ctx then (Inl (FuncNotAllowedError SliceUnique), st)
      else
        (case s of
           VSlice a \<Rightarrow>
             (case cells st a of
                AnyArr sl \<Rightarrow> uniqToNew st a
              | BoolArr sl \<Rightarrow> uniqToNew st a
              | Float32Arr sl \<Rightarrow> uniqToNew st a
              | Float64Arr sl \<Rightarrow> uniqToNew st a
              | StringArr sl \<Rightarrow> uniqToNew st a
              | IntArr sl \<Rightarrow> uniqToNew st a
              | Int8Arr sl \<Rightarrow> uniqToNew st a
              | Int16Arr sl \<Rightarrow> uniqToNew st a
              | Int32Arr sl \<Rightarrow> uniqToNew st a
              | Int64Arr sl \<Rightarrow> uniqToNew st a
              | Uint8Arr sl \<Rightarrow> uniqToNew st a
              | Uint16Arr sl \<Rightarrow> uniqToNew st a
              | Uint32Arr sl \<Rightarrow> uniqToNew st a
              | Uint64Arr sl \<Rightarrow> uniqToNew st a
              | UintArr sl \<Rightarrow> (Inl ErrArgNotSlice, st)
              | OtherArr \<Rightarrow> (Inl ErrArgNotSlice, st))
         | _ \<Rightarrow> (Inl ErrArgNotSlice, st)))"

section \<open>What the claims about slices speak of\<close>








text \<open>
  The first occurrences of a list: an element is kept when none of the elements before it
  equals it. \<open>firstOccurrencesOf\<close> is that on an array, with the \<open>==\<close> of its element type.
\<close>

fun keepFirst :: "('a \<Rightarrow> 'a \<Rightarrow> bool) \<Rightarrow> 'a list \<Rightarrow> 'a list \<Rightarrow> 'a list" where
  "keepFirst eq before [] = []"
| "keepFirst eq before (x # xs) =
     (if list_ex (\<lambda>p. eq p x) before then keepFirst eq (before @ [x]) xs
      else x # keepFirst eq (before @ [x]) xs)"

definition firstOccurrences :: "('a \<Rightarrow> 'a \<Rightarrow> bool) \<Rightarrow> 'a list \<Rightarrow> 'a list" where
  "firstOccurrences eq xs = keepFirst eq [] xs"





text \<open>
  A table with two namespaces, to evaluate the capability set in, and a configuration
  that lists one operation the table knows and three it does not know.
\<close>

definition sampleTable :: "string \<rightharpoonup> string set" where
  "sampleTable =
     [''strings'' \<mapsto> {''ToLower'', ''Index'', ''IndexAny''}, ''url'' \<mapsto> {''JoinPath'', ''QueryEscape''}]"

definition sampleConfig :: "AllowedFunctions list" where
  "sampleConfig =
     [OneFunc \<lparr>Namespace = ''strings'', Name = ''ToLower''\<rparr>,
      ManyFuncs [\<lparr>Namespace = ''url'', Name = ''Nope''\<rparr>,
                 \<lparr>Namespace = ''regexp'', Name = ''MatchString''\<rparr>],
      OneFunc \<lparr>Namespace = ''printf'', Name = ''ToLower''\<rparr>]"

section \<open>The capability set\<close>

lemma allowLoop_acc:
  "allowLoop tbl fs (N, F) =
     (N \<union> fst (allowLoop tbl fs ({}, {})), F \<union> snd (allowLoop tbl fs ({}, {})))"
proof (induction fs arbitrary: N F)
  case Nil
  show ?case by simp
next
  case (Cons f fs)
  show ?case
  proof (cases "tbl (Namespace f)")
    case None
    then show ?thesis using Cons.IH [of N F] by simp
  next
    case (Some nsSet)
    show ?thesis
    proof (cases "Name f \<in> nsSet")
      case False
      then show ?thesis using Some Cons.IH [of N F] by simp
    next
      case True
      let ?g = "\<lparr>Namespace = Namespace f, Name = Name f\<rparr>"
      have a: "allowLoop tbl (f # fs) (N, F) = allowLoop tbl fs (insert (Namespace f) N, insert ?g F)"
        using Some True by simp
      have b: "allowLoop tbl (f # fs) ({}, {}) = allowLoop tbl fs ({Namespace f}, {?g})"
        using Some True by simp
      show ?thesis
        unfolding a b
        using Cons.IH [of "insert (Namespace f) N" "insert ?g F"]
          Cons.IH [of "{Namespace f}" "{?g}"]
        by auto
    qed
  qed
qed

lemma allowLoop_append:
  "allowLoop tbl (fs @ gs) (N, F) = allowLoop tbl gs (allowLoop tbl fs (N, F))"
proof (induction fs arbitrary: N F)
  case Nil
  show ?case by simp
next
  case (Cons f fs)
  show ?case using Cons.IH by (simp split: option.splits)
qed

lemma allFunctions_append:
  "allFunctions (D1 @ D2) = allFunctions D1 @ allFunctions D2"
  by (induction D1) simp_all

text \<open>
  C6. Building the capability set from the concatenation of two descriptor lists permits
  exactly the pairs that the set built from the first list or the set built from the
  second list permits.
\<close>

theorem createAllowedFunctionSet_union:
  "snd (createAllowedFunctionSet tbl (D1 @ D2)) =
     snd (createAllowedFunctionSet tbl D1) \<union> snd (createAllowedFunctionSet tbl D2)"
proof -
  obtain N F where nf: "allowLoop tbl (allFunctions D1) ({}, {}) = (N, F)"
    by (cases "allowLoop tbl (allFunctions D1) ({}, {})")
  have "allowLoop tbl (allFunctions (D1 @ D2)) ({}, {}) = allowLoop tbl (allFunctions D2) (N, F)"
    by (simp add: allFunctions_append allowLoop_append nf)
  also have "\<dots> = (N \<union> fst (allowLoop tbl (allFunctions D2) ({}, {})),
                   F \<union> snd (allowLoop tbl (allFunctions D2) ({}, {})))"
    by (rule allowLoop_acc)
  finally show ?thesis
    by (simp add: createAllowedFunctionSet_def nf)
qed

lemma FuncMap_return:
  "FuncMap tbl t afs ''return'' = Some (ReturnFunc (\<lambda>v. Inl (ReturnError v)))"
proof -
  obtain N F where nf: "createAllowedFunctionSet tbl afs = (N, F)"
    by (cases "createAllowedFunctionSet tbl afs")
  have u: "\<And>c m k v. k \<noteq> ''return'' \<Longrightarrow> (if c then m(k \<mapsto> v) else m) ''return'' = m ''return''"
    by simp
  show ?thesis
    unfolding FuncMap_def Let_def nf prod.case
    by (simp add: u split del: if_split)
qed

lemma dom_FuncMap_aux:
  "dom (FuncMap tbl t afs) =
     {''return''} \<union> ({''conv''} \<inter> fst (createAllowedFunctionSet tbl afs))
      \<union> ({''cmp''} \<inter> fst (createAllowedFunctionSet tbl afs))
      \<union> ({''dict''} \<inter> fst (createAllowedFunctionSet tbl afs))
      \<union> ({''filepath''} \<inter> fst (createAllowedFunctionSet tbl afs))
      \<union> ({''json''} \<inter> fst (createAllowedFunctionSet tbl afs))
      \<union> ({''os''} \<inter> fst (createAllowedFunctionSet tbl afs))
      \<union> ({''path''} \<inter> fst (createAllowedFunctionSet tbl afs))
      \<union> ({''regexp''} \<inter> fst (createAllowedFunctionSet tbl afs))
      \<union> ({''slice''} \<inter> fst (createAllowedFunctionSet tbl afs))
      \<union> ({''strings''} \<inter> fst (createAllowedFunctionSet tbl afs))
      \<union> ({''tmpl''} \<inter> fst (createAllowedFunctionSet tbl afs))
      \<union> ({''url''} \<inter> fst (createAllowedFunctionSet tbl afs))"
proof -
  have u: "\<And>c m k v S. dom (if k \<in> S then m(k \<mapsto> v) else m) = dom m \<union> ({k} \<inter> S)"
    by auto
  obtain N F where nf: "createAllowedFunctionSet tbl afs = (N, F)"
    by (cases "createAllowedFunctionSet tbl afs")
  show ?thesis
    unfolding FuncMap_def Let_def nf prod.case fst_conv u
    by simp
qed

lemma dom_FuncMap:
  "dom (FuncMap tbl t afs) =
     insert ''return'' (set namespaces \<inter> fst (createAllowedFunctionSet tbl afs))"
  unfolding dom_FuncMap_aux namespaces_def by auto

lemma allowLoop_sets:
  "fst (allowLoop tbl fs ({}, {})) = Namespace ` snd (allowLoop tbl fs ({}, {}))"
proof (induction fs)
  case Nil
  show ?case by simp
next
  case (Cons f fs)
  show ?case
  proof (cases "tbl (Namespace f)")
    case None
    then show ?thesis using Cons.IH by simp
  next
    case (Some nsSet)
    show ?thesis
    proof (cases "Name f \<in> nsSet")
      case False
      then show ?thesis using Some Cons.IH by simp
    next
      case True
      let ?g = "\<lparr>Namespace = Namespace f, Name = Name f\<rparr>"
      have b: "allowLoop tbl (f # fs) ({}, {}) = allowLoop tbl fs ({Namespace f}, {?g})"
        using Some True by simp
      show ?thesis
        unfolding b
        using Cons.IH allowLoop_acc [of tbl fs "{Namespace f}" "{?g}"]
        by simp
    qed
  qed
qed

lemma allowLoop_members:
  "(g \<in> snd (allowLoop tbl fs ({}, {}))) =
     (g \<in> set fs \<and> (\<exists>nsSet. tbl (Namespace g) = Some nsSet \<and> Name g \<in> nsSet))"
proof (induction fs)
  case Nil
  show ?case by simp
next
  case (Cons f fs)
  show ?case
  proof (cases "tbl (Namespace f)")
    case None
    then show ?thesis using Cons.IH by auto
  next
    case (Some nsSet)
    show ?thesis
    proof (cases "Name f \<in> nsSet")
      case False
      then show ?thesis using Some Cons.IH by auto
    next
      case True
      let ?g = "\<lparr>Namespace = Namespace f, Name = Name f\<rparr>"
      have b: "allowLoop tbl (f # fs) ({}, {}) = allowLoop tbl fs ({Namespace f}, {?g})"
        using Some True by simp
      have f: "?g = f" by simp
      have "snd (allowLoop tbl fs ({Namespace f}, {?g})) = {?g} \<union> snd (allowLoop tbl fs ({}, {}))"
        by (subst allowLoop_acc) simp
      then have "(g \<in> snd (allowLoop tbl (f # fs) ({}, {}))) = (g = f \<or> g \<in> snd (allowLoop tbl fs ({}, {})))"
        unfolding b by (simp only: f) auto
      then show ?thesis using Cons.IH Some True by auto
    qed
  qed
qed

lemma createAllowedFunctionSet_members:
  "(g \<in> snd (createAllowedFunctionSet tbl allowedFunctions)) =
     (g \<in> set (allFunctions allowedFunctions) \<and>
      (\<exists>nsSet. tbl (Namespace g) = Some nsSet \<and> Name g \<in> nsSet))"
  unfolding createAllowedFunctionSet_def by (rule allowLoop_members)

lemma namespaceSet_iff:
  "(ns \<in> fst (createAllowedFunctionSet tbl afs)) =
     (\<exists>name. \<lparr>Namespace = ns, Name = name\<rparr> \<in> snd (createAllowedFunctionSet tbl afs))"
proof -
  let ?S = "createAllowedFunctionSet tbl afs"
  have 1: "fst ?S = Namespace ` snd ?S"
    unfolding createAllowedFunctionSet_def by (rule allowLoop_sets)
  show ?thesis
  proof
    assume "ns \<in> fst ?S"
    then obtain g where g: "g \<in> snd ?S" "Namespace g = ns" unfolding 1 by auto
    have "g = \<lparr>Namespace = ns, Name = Name g\<rparr>" using g(2) by simp
    then show "\<exists>name. \<lparr>Namespace = ns, Name = name\<rparr> \<in> snd ?S" using g(1) by metis
  next
    assume "\<exists>name. \<lparr>Namespace = ns, Name = name\<rparr> \<in> snd ?S"
    then show "ns \<in> fst ?S" unfolding 1 by force
  qed
qed

text \<open>
  C7. For every table of recognized operations and every configuration: the function map
  holds the identifier of a namespace exactly when the configuration lists an operation
  of that namespace that the table recognizes, and those are the namespaces of which the
  capability set holds an operation; an identifier that is neither a namespace nor
  \<open>return\<close> is never in the map, so referring to it finds no function.
\<close>

theorem FuncMap_namespace_exposure:
  "(ns \<in> set namespaces \<longrightarrow>
      (ns \<in> dom (FuncMap tbl t allowedFunctions)) =
      (\<exists>name nsSet. \<lparr>Namespace = ns, Name = name\<rparr> \<in> set (allFunctions allowedFunctions) \<and>
                     tbl ns = Some nsSet \<and> name \<in> nsSet) \<and>
      (ns \<in> dom (FuncMap tbl t allowedFunctions)) =
      (\<exists>name. \<lparr>Namespace = ns, Name = name\<rparr>
                 \<in> snd (createAllowedFunctionSet tbl allowedFunctions))) \<and>
   (ns \<notin> set namespaces \<and> ns \<noteq> ''return'' \<longrightarrow> FuncMap tbl t allowedFunctions ns = None)"
proof -
  have r: "ns \<in> set namespaces \<Longrightarrow> ns \<noteq> ''return''"
    by (auto simp: namespaces_def)
  have m: "(\<exists>name. \<lparr>Namespace = ns, Name = name\<rparr>
                     \<in> snd (createAllowedFunctionSet tbl allowedFunctions)) =
           (\<exists>name nsSet. \<lparr>Namespace = ns, Name = name\<rparr> \<in> set (allFunctions allowedFunctions) \<and>
                          tbl ns = Some nsSet \<and> name \<in> nsSet)"
    by (simp add: createAllowedFunctionSet_members)
  have d: "ns \<in> set namespaces \<Longrightarrow>
           (ns \<in> dom (FuncMap tbl t allowedFunctions)) =
           (\<exists>name. \<lparr>Namespace = ns, Name = name\<rparr>
                      \<in> snd (createAllowedFunctionSet tbl allowedFunctions))"
    using r dom_FuncMap [of tbl t allowedFunctions] namespaceSet_iff [of ns tbl allowedFunctions]
    by auto
  have n: "ns \<notin> set namespaces \<Longrightarrow> ns \<noteq> ''return'' \<Longrightarrow> FuncMap tbl t allowedFunctions ns = None"
    using dom_FuncMap [of tbl t allowedFunctions] by (auto simp: domIff)
  show ?thesis
    using d n unfolding m by blast
qed

theorem FuncMap_namespace_exposure_witness:
  "''strings'' \<in> dom (FuncMap sampleTable emptyTemplate sampleConfig) \<and>
   ''url'' \<notin> dom (FuncMap sampleTable emptyTemplate sampleConfig) \<and>
   ''regexp'' \<notin> dom (FuncMap sampleTable emptyTemplate sampleConfig) \<and>
   FuncMap sampleTable emptyTemplate sampleConfig ''printf'' = None"
proof -
  have n: "''strings'' \<in> set namespaces" "''url'' \<in> set namespaces"
    "''regexp'' \<in> set namespaces"
    "''printf'' \<notin> set namespaces \<and> ''printf'' \<noteq> ''return''"
    by (simp_all add: namespaces_def)
  have fs: "set (allFunctions sampleConfig) =
      {\<lparr>Namespace = ''strings'', Name = ''ToLower''\<rparr>, \<lparr>Namespace = ''url'', Name = ''Nope''\<rparr>,
       \<lparr>Namespace = ''regexp'', Name = ''MatchString''\<rparr>,
       \<lparr>Namespace = ''printf'', Name = ''ToLower''\<rparr>}"
    by (simp add: sampleConfig_def)
  have s: "\<exists>name nsSet. \<lparr>Namespace = ''strings'', Name = name\<rparr> \<in> set (allFunctions sampleConfig) \<and>
             sampleTable ''strings'' = Some nsSet \<and> name \<in> nsSet"
    unfolding fs by (simp add: sampleTable_def)
  have u: "\<not> (\<exists>name nsSet. \<lparr>Namespace = ''url'', Name = name\<rparr> \<in> set (allFunctions sampleConfig) \<and>
             sampleTable ''url'' = Some nsSet \<and> name \<in> nsSet)"
    unfolding fs by (simp add: sampleTable_def)
  have x: "\<not> (\<exists>name nsSet. \<lparr>Namespace = ''regexp'', Name = name\<rparr> \<in> set (allFunctions sampleConfig) \<and>
             sampleTable ''regexp'' = Some nsSet \<and> name \<in> nsSet)"
    by (simp add: sampleTable_def)
  show ?thesis
    using FuncMap_namespace_exposure [of "''strings''" sampleTable emptyTemplate sampleConfig]
      FuncMap_namespace_exposure [of "''url''" sampleTable emptyTemplate sampleConfig]
      FuncMap_namespace_exposure [of "''regexp''" sampleTable emptyTemplate sampleConfig]
      FuncMap_namespace_exposure [of "''printf''" sampleTable emptyTemplate sampleConfig]
      n s u x
    by blast
qed

text \<open>
  C9. Whatever the template and the list of allowed functions (the empty list included),
  the function map holds \<open>return\<close>, no permission is asked for it, and calling it
  with a value \<open>v\<close> yields the return signal that carries \<open>v\<close>.
\<close>

theorem FuncMap_return_always:
  "\<exists>ret. FuncMap tbl t allowedFunctions ''return'' = Some (ReturnFunc ret) \<and>
         (\<forall>v. ret v = Inl (ReturnError v))"
  by (simp add: FuncMap_return)

text \<open>
  C4. A sub-template that ends with a return signal carrying \<open>v\<close> makes \<open>Tmpl.Exec\<close>
  return normally, with \<open>v\<close> rendered as a string; any other error is not absorbed: the
  call fails with an error that wraps it.
\<close>

theorem Tmpl_Exec_absorbs_return:
  assumes "tExecuteTemplate (template ctx) name data = (buf, Some e)"
  shows "(errors_As_ReturnError e = Some v \<longrightarrow>
            Tmpl_Exec fmtv ctx name data = Inr (Sprint fmtv v)) \<and>
         (errors_As_ReturnError e = None \<longrightarrow>
            Tmpl_Exec fmtv ctx name data =
              Inl (ErrorfW ''failed to execute partial template %q: %w'' [VString name] e))"
  using assms by (simp add: Tmpl_Exec_def)

theorem Tmpl_Exec_absorbs_return_witness:
  "Tmpl_Exec (\<lambda>_. ''?'')
     \<lparr>template = \<lparr>tExecute = (\<lambda>_. ([], None)),
                  tExecuteTemplate = (\<lambda>name data.
                    if name = ''getName''
                    then (''partial'', Some (ErrorfW ''error calling return: %w'' [] (ReturnError (VString ''Anonymous''))))
                    else ([], Some (ErrorNew ''no such template'')))\<rparr>,
      allowedFunctionSet = {}\<rparr> ''getName'' VNil = Inr ''Anonymous'' \<and>
   Tmpl_Exec (\<lambda>_. ''?'')
     \<lparr>template = \<lparr>tExecute = (\<lambda>_. ([], None)),
                  tExecuteTemplate = (\<lambda>name data.
                    if name = ''getName''
                    then (''partial'', Some (ErrorfW ''error calling return: %w'' [] (ReturnError (VString ''Anonymous''))))
                    else ([], Some (ErrorNew ''no such template'')))\<rparr>,
      allowedFunctionSet = {}\<rparr> ''other'' VNil =
     Inl (ErrorfW ''failed to execute partial template %q: %w'' [VString ''other'']
            (ErrorNew ''no such template''))"
proof -
  let ?t = "\<lparr>tExecute = (\<lambda>_. ([], None)),
                  tExecuteTemplate = (\<lambda>name data.
                    if name = ''getName''
                    then (''partial'', Some (ErrorfW ''error calling return: %w'' [] (ReturnError (VString ''Anonymous''))))
                    else ([], Some (ErrorNew ''no such template'')))\<rparr>"
  let ?ctx = "\<lparr>template = ?t, allowedFunctionSet = {}\<rparr>"
  have a: "tExecuteTemplate (template ?ctx) ''getName'' VNil =
             (''partial'', Some (ErrorfW ''error calling return: %w'' [] (ReturnError (VString ''Anonymous''))))"
    by simp
  have b: "tExecuteTemplate (template ?ctx) ''other'' VNil = ([], Some (ErrorNew ''no such template''))"
    by simp
  show ?thesis
    using Tmpl_Exec_absorbs_return [OF a, of "VString ''Anonymous''" "\<lambda>_. ''?''"]
      Tmpl_Exec_absorbs_return [OF b, of VNil "\<lambda>_. ''?''"]
    by simp
qed

text \<open>The later variant absorbs the return signal too, and hands the value back itself.\<close>

lemma Tmpl_Exec_variadic_return:
  assumes "tExecuteTemplate (template ctx) name arg = (buf, Some e)"
    and "errors_As_ReturnError e = Some v"
  shows "Tmpl_Exec_variadic ctx name [arg] = Inr v"
  using assms by (simp add: Tmpl_Exec_variadic_def)

text \<open>
  C5. \<open>Execute\<close> and \<open>ExecuteTemplate\<close>: when the evaluation ends with a return signal
  carrying \<open>v\<close>, the call reports no error and the writer holds what it held, then what
  was emitted before the signal, then \<open>v\<close> rendered; when it ends with any other error,
  the call reports an error wrapping it and what was emitted stays in the writer.
\<close>

theorem Execute_return_and_error:
  "(tExecute t data = (out, Some e) \<and> errors_As_ReturnError e = Some v \<longrightarrow>
      Execute fmtv t wr data = (wr @ out @ Sprint fmtv v, None)) \<and>
   (tExecute t data = (out, Some e) \<and> errors_As_ReturnError e = None \<longrightarrow>
      Execute fmtv t wr data = (wr @ out, Some (ErrorfW ''failed to execute template: %w'' [] e))) \<and>
   (tExecuteTemplate t name data = (out, Some e) \<and> errors_As_ReturnError e = Some v \<longrightarrow>
      ExecuteTemplate fmtv t wr name data = (wr @ out @ Sprint fmtv v, None)) \<and>
   (tExecuteTemplate t name data = (out, Some e) \<and> errors_As_ReturnError e = None \<longrightarrow>
      ExecuteTemplate fmtv t wr name data =
        (wr @ out, Some (ErrorfW ''failed to execute template: %w'' [] e)))"
  by (simp add: Execute_def ExecuteTemplate_def finishExecute_def)

theorem Execute_return_and_error_witness:
  "Execute (\<lambda>_. ''?'')
     \<lparr>tExecute = (\<lambda>_. (''Hello '', Some (ErrorfW ''error calling return: %w'' [] (ReturnError (VString ''World''))))),
      tExecuteTemplate = (\<lambda>_ _. (''Hello '', Some (Panic ''oh no'')))\<rparr> [] VNil = (''Hello World'', None) \<and>
   ExecuteTemplate (\<lambda>_. ''?'')
     \<lparr>tExecute = (\<lambda>_. (''Hello '', Some (ErrorfW ''error calling return: %w'' [] (ReturnError (VString ''World''))))),
      tExecuteTemplate = (\<lambda>_ _. (''Hello '', Some (Panic ''oh no'')))\<rparr> [] ''template'' VNil =
     (''Hello '', Some (ErrorfW ''failed to execute template: %w'' [] (Panic ''oh no'')))"
  using Execute_return_and_error [of
      "\<lparr>tExecute = (\<lambda>_. (''Hello '', Some (ErrorfW ''error calling return: %w'' [] (ReturnError (VString ''World''))))),
        tExecuteTemplate = (\<lambda>_ _. (''Hello '', Some (Panic ''oh no'')))\<rparr>"
      VNil "''Hello ''" "ErrorfW ''error calling return: %w'' [] (ReturnError (VString ''World''))"
      "VString ''World''" "\<lambda>_. ''?''" "[]" "''template''"]
    Execute_return_and_error [of
      "\<lparr>tExecute = (\<lambda>_. (''Hello '', Some (ErrorfW ''error calling return: %w'' [] (ReturnError (VString ''World''))))),
        tExecuteTemplate = (\<lambda>_ _. (''Hello '', Some (Panic ''oh no'')))\<rparr>"
      VNil "''Hello ''" "Panic ''oh no''"
      "VString ''World''" "\<lambda>_. ''?''" "[]" "''template''"]
  by simp

section \<open>The gate\<close>

text \<open>
  C1. The claim: every operation asks the gate first and answers a denied pair with
  \<open>FuncNotAllowedError\<close>. \<open>Strings.Index\<close> and \<open>Conv.ToBool\<close> do; \<open>Strings.IndexAny\<close>
  has no gate check and computes the index under the empty capability set, the result
  of \<open>Tmpl.Exec\<close> does not depend on the capability set either, and
  \<open>Regexp.FindAllStringIndex\<close> is denied, under the pair of \<open>FindAllString\<close>, although its
  own pair is permitted.
\<close>

theorem Strings_IndexAny_ungated:
  "Strings_IndexAny \<lparr>template = t, allowedFunctionSet = {}\<rparr> ''hello'' ''aeiou'' = Inr 1 \<and>
   Strings_Index \<lparr>template = t, allowedFunctionSet = {}\<rparr> ''hello'' ''l'' =
     Inl (FuncNotAllowedError StringsIndex) \<and>
   Conv_ToBool fp \<lparr>template = t, allowedFunctionSet = {}\<rparr> (VString ''true'') =
     Inl (FuncNotAllowedError ConvToBool) \<and>
   Tmpl_Exec fmtv \<lparr>template = t, allowedFunctionSet = {}\<rparr> name data =
     Tmpl_Exec fmtv \<lparr>template = t, allowedFunctionSet = UNIV\<rparr> name data \<and>
   Regexp_FindAllStringIndex regexp_Compile
     \<lparr>template = t, allowedFunctionSet = {RegexpFindAllStringIndex}\<rparr> pattern s n =
     Inl (FuncNotAllowedError RegexpFindAllString)"
  by (simp add: Strings_IndexAny_def strings_IndexAny_def Strings_Index_def Tmpl_Exec_def
      Conv_ToBool_def Regexp_FindAllStringIndex_def RegexpFindAllString_def
      RegexpFindAllStringIndex_def funcId_def)

text \<open>
  Where the check is there, a denied call does nothing else: it answers with the error of
  its own pair, and \<open>Sort\<close> and \<open>Unique\<close> leave the store as it was.
\<close>

lemma denied_calls:
  "ConvToBool \<notin> allowedFunctionSet ctx \<Longrightarrow>
     Conv_ToBool fp ctx v = Inl (FuncNotAllowedError ConvToBool)"
  "ConvToString \<notin> allowedFunctionSet ctx \<Longrightarrow>
     Conv_ToString mem fmtv ctx v = Inl (FuncNotAllowedError ConvToString)"
  "ConvToInt64 \<notin> allowedFunctionSet ctx \<Longrightarrow>
     Conv_ToInt64 fp ctx v = Inl (FuncNotAllowedError ConvToInt64)"
  "ConvToInt8 \<notin> allowedFunctionSet ctx \<Longrightarrow>
     Conv_ToInt8 fp ctx v = Inl (FuncNotAllowedError ConvToInt8)"
  "ConvToUint64 \<notin> allowedFunctionSet ctx \<Longrightarrow>
     Conv_ToUint64 fp ctx v = Inl (FuncNotAllowedError ConvToUint64)"
  "ConvToFloat64 \<notin> allowedFunctionSet ctx \<Longrightarrow>
     Conv_ToFloat64 fp ctx v = Inl (FuncNotAllowedError ConvToFloat64)"
  "StringsIndex \<notin> allowedFunctionSet ctx \<Longrightarrow>
     Strings_Index ctx str substr = Inl (FuncNotAllowedError StringsIndex)"
  "StringsToLower \<notin> allowedFunctionSet ctx \<Longrightarrow>
     Strings_ToLower ctx str = Inl (FuncNotAllowedError StringsToLower)"
  "SliceSort \<notin> allowedFunctionSet ctx \<Longrightarrow>
     Slice_Sort ctx st v = (Inl (FuncNotAllowedError SliceSort), st)"
  "SliceUnique \<notin> allowedFunctionSet ctx \<Longrightarrow>
     Slice_Unique ctx st v = (Inl (FuncNotAllowedError SliceUnique), st)"
  by (simp_all add: Conv_ToBool_def Conv_ToString_def Conv_ToInt64_def Conv_ToInt8_def
      Conv_ToUint64_def Conv_ToFloat64_def Strings_Index_def Strings_ToLower_def
      Slice_Sort_def Slice_Unique_def)

section \<open>Coercion\<close>

declare decimal.simps [simp del]

lemma ParseInt_2_63: "ParseInt ''9223372036854775808'' = Inl ErrRange"
  by (simp add: ParseInt_def ParseUint_def digitVal_def maxUint64_def)

lemma sint64_range: "MinInt64 \<le> sint (w :: 64 word) \<and> sint w \<le> MaxInt64"
  using sint_ge [of w] sint_lt [of w] by (simp add: MinInt64_def MaxInt64_def)

lemma conv_permitted:
  assumes "convFuncs \<subseteq> allowedFunctionSet ctx"
  shows "ConvToBool \<in> allowedFunctionSet ctx" "ConvToString \<in> allowedFunctionSet ctx"
    "ConvToFloat64 \<in> allowedFunctionSet ctx" "ConvToFloat32 \<in> allowedFunctionSet ctx"
    "ConvToInt64 \<in> allowedFunctionSet ctx" "ConvToInt8 \<in> allowedFunctionSet ctx"
    "ConvToInt16 \<in> allowedFunctionSet ctx" "ConvToInt32 \<in> allowedFunctionSet ctx"
    "ConvToInt \<in> allowedFunctionSet ctx" "ConvToUint64 \<in> allowedFunctionSet ctx"
    "ConvToUint8 \<in> allowedFunctionSet ctx" "ConvToUint16 \<in> allowedFunctionSet ctx"
    "ConvToUint32 \<in> allowedFunctionSet ctx" "ConvToUint \<in> allowedFunctionSet ctx"
  using assms unfolding convFuncs_def by auto

lemma digit_cases:
  assumes "d < (10::nat)"
  obtains "d = 0" | "d = 1" | "d = 2" | "d = 3" | "d = 4" | "d = 5" | "d = 6" | "d = 7"
    | "d = 8" | "d = 9"
proof -
  have "d = 0 \<or> d = 1 \<or> d = 2 \<or> d = 3 \<or> d = 4 \<or> d = 5 \<or> d = 6 \<or> d = 7 \<or> d = 8 \<or> d = 9"
    using assms by arith
  then show thesis using that by blast
qed

lemma digitChars_props:
  assumes "d < 10"
  shows "digitVal (digitChars ! d) = Some d"
    and "digitChars ! d \<noteq> CHR ''_''"
    and "digitChars ! d \<noteq> CHR '',''"
    and "digitChars ! d \<noteq> CHR ''-''"
    and "digitChars ! d \<noteq> CHR ''+''"
    and "d \<noteq> 0 \<Longrightarrow> digitChars ! d \<noteq> CHR ''0''"
  using assms by (cases d rule: digit_cases; simp add: digitChars_def digitVal_def)+

lemma decimal_nonempty: "decimal n \<noteq> []"
  by (subst decimal.simps) simp

lemma decimal_chars: "c \<in> set (decimal n) \<Longrightarrow> \<exists>d<10. c = digitChars ! d"
proof (induction n rule: decimal.induct)
  case (1 n)
  show ?case
  proof (cases "n < 10")
    case True
    then show ?thesis using "1.prems" by (subst (asm) decimal.simps) auto
  next
    case False
    have "c \<in> set (decimal (n div 10)) \<or> c = digitChars ! (n mod 10)"
      using "1.prems" False by (subst (asm) decimal.simps) auto
    then show ?thesis using "1.IH" [OF False] by (auto intro: exI [of _ "n mod 10"])
  qed
qed

lemma decimal_hd: "0 < n \<Longrightarrow> hd (decimal n) \<noteq> CHR ''0''"
proof (induction n rule: decimal.induct)
  case (1 n)
  show ?case
  proof (cases "n < 10")
    case True
    then show ?thesis using "1.prems" digitChars_props(6) [of n]
      by (subst decimal.simps) simp
  next
    case False
    then have "0 < n div 10" by simp
    then have "hd (decimal (n div 10)) \<noteq> CHR ''0''" using "1.IH" [OF False] by simp
    then show ?thesis using False decimal_nonempty [of "n div 10"]
      by (subst decimal.simps) simp
  qed
qed

lemma parseUintLoop_digit:
  assumes "d < 10" and "acc * 10 + d < 2 ^ 64"
  shows "parseUintLoop 10 (digitChars ! d # rest) acc u = parseUintLoop 10 rest (acc * 10 + d) u"
proof -
  have "acc \<le> maxUint64 div 10" using assms(2) by (simp add: maxUint64_def)
  then have c: "\<not> maxUint64 div 10 + 1 \<le> acc" by simp
  have m: "(acc * 10 + d) mod 18446744073709551616 = acc * 10 + d" using assms(2) by simp
  have le: "acc * 10 + d \<le> maxUint64" using assms(2) by (simp add: maxUint64_def)
  show ?thesis
    using assms(1) c le digitChars_props(1,2) [OF assms(1)]
    by (simp add: m del: One_nat_def)
qed

lemma parseUintLoop_decimal:
  "acc * 10 ^ length (decimal n) + n < 2 ^ 64 \<Longrightarrow>
   parseUintLoop 10 (decimal n @ rest) acc u =
     parseUintLoop 10 rest (acc * 10 ^ length (decimal n) + n) u"
proof (induction n arbitrary: rest rule: decimal.induct)
  case (1 n)
  show ?case
  proof (cases "n < 10")
    case True
    then have d: "decimal n = [digitChars ! n]" by (subst decimal.simps) simp
    show ?thesis using "1.prems" parseUintLoop_digit [OF True, of acc rest u]
      by (simp add: d)
  next
    case False
    let ?q = "n div 10" and ?r = "n mod 10"
    have d: "decimal n = decimal ?q @ [digitChars ! ?r]"
      using False by (subst decimal.simps) simp
    have len: "length (decimal n) = Suc (length (decimal ?q))" by (simp add: d)
    have n: "n = ?q * 10 + ?r" by simp
    have eq: "acc * 10 ^ length (decimal n) + n = (acc * 10 ^ length (decimal ?q) + ?q) * 10 + ?r"
      unfolding len by (simp add: algebra_simps)
    have b1: "(acc * 10 ^ length (decimal ?q) + ?q) * 10 + ?r < 2 ^ 64"
      using "1.prems" unfolding eq .
    have b2: "acc * 10 ^ length (decimal ?q) + ?q < 2 ^ 64"
    proof -
      define X where "X = acc * 10 ^ length (decimal ?q) + ?q"
      define r where "r = ?r"
      have "X * 10 + r < 2 ^ 64" using b1 unfolding X_def r_def .
      then have "X < 2 ^ 64" by simp
      then show ?thesis unfolding X_def .
    qed
    have "parseUintLoop 10 (decimal n @ rest) acc u =
            parseUintLoop 10 (decimal ?q @ (digitChars ! ?r # rest)) acc u"
      by (simp add: d)
    also have "\<dots> = parseUintLoop 10 (digitChars ! ?r # rest) (acc * 10 ^ length (decimal ?q) + ?q) u"
      using "1.IH" [OF False b2] .
    also have "\<dots> = parseUintLoop 10 rest ((acc * 10 ^ length (decimal ?q) + ?q) * 10 + ?r) u"
      using parseUintLoop_digit [of ?r "acc * 10 ^ length (decimal ?q) + ?q" rest u] b1 by simp
    finally show ?thesis unfolding eq .
  qed
qed

lemma ParseUint_decimal:
  assumes "n < 2 ^ 64"
  shows "ParseUint (decimal n) = Inr n"
proof (cases "n = 0")
  case True
  have "decimal 0 = ''0''" by (subst decimal.simps) (simp add: digitChars_def)
  then show ?thesis using True by (simp add: ParseUint_def)
next
  case False
  then have h: "hd (decimal n) \<noteq> CHR ''0''" using decimal_hd [of n] by simp
  have ne: "decimal n \<noteq> []" by (rule decimal_nonempty)
  then have h0: "decimal n ! 0 \<noteq> CHR ''0''" using h by (simp add: hd_conv_nth)
  have "parseUintLoop 10 (decimal n @ []) 0 False = parseUintLoop 10 [] (0 * 10 ^ length (decimal n) + n) False"
    using assms by (intro parseUintLoop_decimal) simp
  then have "parseUintLoop 10 (decimal n) 0 False = Inr (n, False)" by simp
  then show ?thesis using ne h0 by (simp add: ParseUint_def)
qed

lemma decimal_no_sign: "decimal n ! 0 \<noteq> CHR ''+'' \<and> decimal n ! 0 \<noteq> CHR ''-''"
proof -
  have "decimal n ! 0 \<in> set (decimal n)" using decimal_nonempty [of n] by simp
  then obtain d where "d < 10" "decimal n ! 0 = digitChars ! d" using decimal_chars by blast
  then show ?thesis using digitChars_props(4,5) by simp
qed

lemma ParseInt_FormatInt:
  assumes "MinInt64 \<le> v" and "v \<le> MaxInt64"
  shows "ParseInt (FormatInt v) = Inr v"
proof (cases "v < 0")
  case True
  have b: "nat (- v) < 2 ^ 64" "\<not> 2 ^ 63 < nat (- v)"
    using assms(1) True by (simp_all add: MinInt64_def)
  show ?thesis
    using True ParseUint_decimal [OF b(1)] b(2)
    by (simp add: ParseInt_def FormatInt_def)
next
  case False
  have b: "nat v < 2 ^ 64" "\<not> 2 ^ 63 \<le> nat v"
    using assms(2) False by (simp_all add: MaxInt64_def)
  show ?thesis
    using False ParseUint_decimal [OF b(1)] b(2) decimal_no_sign [of "nat v"] decimal_nonempty [of "nat v"]
    by (simp add: ParseInt_def FormatInt_def)
qed

lemma FormatInt_no_comma: "CHR '','' \<notin> set (FormatInt v)"
proof -
  have "\<And>n. CHR '','' \<notin> set (decimal n)"
    using decimal_chars digitChars_props(3) by metis
  then show ?thesis by (simp add: FormatInt_def)
qed

lemma strToInt64_FormatInt:
  assumes "MinInt64 \<le> v" and "v \<le> MaxInt64"
  shows "strToInt64 fp (FormatInt v) = Inr (word_of_int v)"
  using ParseInt_FormatInt [OF assms] FormatInt_no_comma [of v]
  by (simp add: strToInt64_def removeCommas_def)

lemma sint_word_of_int_range:
  assumes "- (2 ^ (LENGTH('a::len) - 1)) \<le> v" and "v < 2 ^ (LENGTH('a) - 1)"
  shows "sint (word_of_int v :: 'a word) = v"
  using assms by (simp add: signed_of_int signed_take_bit_int_eq_self)

lemma ucast_word_of_int_down:
  assumes "LENGTH('a::len) \<le> LENGTH('b::len)"
  shows "(ucast (word_of_int v :: 'b word) :: 'a word) = word_of_int v"
  using assms
  by transfer (simp add: take_bit_take_bit min_def)

lemma toInt_FormatInt:
  assumes "MinInt64 \<le> v" and "v \<le> MaxInt64"
  shows "toInt fp (VString (FormatInt v)) lo hi =
           (if v < lo \<or> hi < v
            then Inl (Errorf ''could not convert %d, would overflow'' [VInt64 (word_of_int v)])
            else Inr (ucast (word_of_int v :: 64 word)))"
proof -
  have s: "sint (word_of_int v :: 64 word) = v"
    using assms by (intro sint_word_of_int_range) (simp_all add: MinInt64_def MaxInt64_def)
  show ?thesis
    by (simp add: toInt_def toInt64_def strToInt64_FormatInt [OF assms] s)
qed

text \<open>
  Within the range of \<open>int64\<close> the conversions of decimal text are exact. For a
  permitted conversion and an integer \<open>v\<close> that an \<open>int64\<close> can hold: the decimal text of
  \<open>v\<close> converts back to \<open>v\<close> when \<open>v\<close> is in the range of the target width, and is
  refused with the overflow error when it is not.
\<close>

theorem Conv_ToInt_decimal_text:
  assumes "convFuncs \<subseteq> allowedFunctionSet ctx" and "MinInt64 \<le> v" and "v \<le> MaxInt64"
  shows "Conv_ToInt8 fp ctx (VString (FormatInt v)) =
           (if - 128 \<le> v \<and> v \<le> 127 then Inr (word_of_int v)
            else Inl (Errorf ''could not convert %d, would overflow'' [VInt64 (word_of_int v)]))"
    and "Conv_ToInt16 fp ctx (VString (FormatInt v)) =
           (if - 32768 \<le> v \<and> v \<le> 32767 then Inr (word_of_int v)
            else Inl (Errorf ''could not convert %d, would overflow'' [VInt64 (word_of_int v)]))"
    and "Conv_ToInt32 fp ctx (VString (FormatInt v)) =
           (if - 2147483648 \<le> v \<and> v \<le> 2147483647 then Inr (word_of_int v)
            else Inl (Errorf ''could not convert %d, would overflow'' [VInt64 (word_of_int v)]))"
    and "Conv_ToInt64 fp ctx (VString (FormatInt v)) = Inr (word_of_int v)"
    and "Conv_ToInt fp ctx (VString (FormatInt v)) = Inr (word_of_int v)"
proof -
  note p = conv_permitted [OF assms(1)]
  show "Conv_ToInt8 fp ctx (VString (FormatInt v)) =
           (if - 128 \<le> v \<and> v \<le> 127 then Inr (word_of_int v)
            else Inl (Errorf ''could not convert %d, would overflow'' [VInt64 (word_of_int v)]))"
    using p by (auto simp: Conv_ToInt8_def toInt_FormatInt [OF assms(2,3)] ucast_word_of_int_down)
  show "Conv_ToInt16 fp ctx (VString (FormatInt v)) =
           (if - 32768 \<le> v \<and> v \<le> 32767 then Inr (word_of_int v)
            else Inl (Errorf ''could not convert %d, would overflow'' [VInt64 (word_of_int v)]))"
    using p by (auto simp: Conv_ToInt16_def toInt_FormatInt [OF assms(2,3)] ucast_word_of_int_down)
  show "Conv_ToInt32 fp ctx (VString (FormatInt v)) =
           (if - 2147483648 \<le> v \<and> v \<le> 2147483647 then Inr (word_of_int v)
            else Inl (Errorf ''could not convert %d, would overflow'' [VInt64 (word_of_int v)]))"
    using p by (auto simp: Conv_ToInt32_def toInt_FormatInt [OF assms(2,3)] ucast_word_of_int_down)
  show "Conv_ToInt64 fp ctx (VString (FormatInt v)) = Inr (word_of_int v)"
    using p by (simp add: Conv_ToInt64_def toInt64_def strToInt64_FormatInt [OF assms(2,3)])
  show "Conv_ToInt fp ctx (VString (FormatInt v)) = Inr (word_of_int v)"
    using p assms(2,3)
    by (auto simp: Conv_ToInt_def toInt_FormatInt [OF assms(2,3)] ucast_word_of_int_down)
qed

lemma toString_signed:
  "toString mem fmtv (VInt8 a) = FormatInt (sint a)"
  "toString mem fmtv (VInt16 b) = FormatInt (sint b)"
  "toString mem fmtv (VInt32 c) = FormatInt (sint c)"
  "toString mem fmtv (VInt64 d) = FormatInt (sint d)"
  "toString mem fmtv (VInt e) = FormatInt (sint e)"
  by (simp_all add: toString_def)

text \<open>Read on the values themselves: \<open>ToInt\<close> of the width undoes \<open>ToString\<close>.\<close>

theorem Conv_ToInt_of_ToString:
  assumes "convFuncs \<subseteq> allowedFunctionSet ctx"
  shows "Conv_ToInt8 fp ctx (VString (toString mem fmtv (VInt8 a))) = Inr a"
    and "Conv_ToInt16 fp ctx (VString (toString mem fmtv (VInt16 b))) = Inr b"
    and "Conv_ToInt32 fp ctx (VString (toString mem fmtv (VInt32 c))) = Inr c"
    and "Conv_ToInt64 fp ctx (VString (toString mem fmtv (VInt64 d))) = Inr d"
    and "Conv_ToInt fp ctx (VString (toString mem fmtv (VInt e))) = Inr e"
proof -
  have r8: "MinInt64 \<le> sint a \<and> sint a \<le> MaxInt64 \<and> - 128 \<le> sint a \<and> sint a \<le> 127"
    using sint_ge [of a] sint_lt [of a] by (simp add: MinInt64_def MaxInt64_def)
  have r16: "MinInt64 \<le> sint b \<and> sint b \<le> MaxInt64 \<and> - 32768 \<le> sint b \<and> sint b \<le> 32767"
    using sint_ge [of b] sint_lt [of b] by (simp add: MinInt64_def MaxInt64_def)
  have r32: "MinInt64 \<le> sint c \<and> sint c \<le> MaxInt64 \<and> - 2147483648 \<le> sint c \<and> sint c \<le> 2147483647"
    using sint_ge [of c] sint_lt [of c] by (simp add: MinInt64_def MaxInt64_def)
  have r64: "MinInt64 \<le> sint d \<and> sint d \<le> MaxInt64" "MinInt64 \<le> sint e \<and> sint e \<le> MaxInt64"
    using sint_ge [of d] sint_lt [of d] sint_ge [of e] sint_lt [of e]
    by (simp_all add: MinInt64_def MaxInt64_def)
  show "Conv_ToInt8 fp ctx (VString (toString mem fmtv (VInt8 a))) = Inr a"
    using Conv_ToInt_decimal_text(1) [OF assms, of "sint a" fp] r8 by (simp add: toString_signed)
  show "Conv_ToInt16 fp ctx (VString (toString mem fmtv (VInt16 b))) = Inr b"
    using Conv_ToInt_decimal_text(2) [OF assms, of "sint b" fp] r16 by (simp add: toString_signed)
  show "Conv_ToInt32 fp ctx (VString (toString mem fmtv (VInt32 c))) = Inr c"
    using Conv_ToInt_decimal_text(3) [OF assms, of "sint c" fp] r32 by (simp add: toString_signed)
  show "Conv_ToInt64 fp ctx (VString (toString mem fmtv (VInt64 d))) = Inr d"
    using Conv_ToInt_decimal_text(4) [OF assms, of "sint d" fp] r64 by (simp add: toString_signed)
  show "Conv_ToInt fp ctx (VString (toString mem fmtv (VInt e))) = Inr e"
    using Conv_ToInt_decimal_text(5) [OF assms, of "sint e" fp] r64 by (simp add: toString_signed)
qed

text \<open>
  C2. The claim: the decimal text of an integer outside the range of the target width is
  refused with an overflow error. For the widths \<open>int64\<close> and \<open>int\<close> and the integer
  \<open>2^63\<close> the code does not: \<open>ParseInt\<close> reports the range error, the text is then read
  as a floating-point number, and whatever the conversion of that number to \<open>int64\<close>
  gives is returned without an error.
\<close>

theorem Conv_ToInt64_out_of_range_text:
  assumes "ConvToInt64 \<in> allowedFunctionSet ctx" and "ConvToInt \<in> allowedFunctionSet ctx"
    and "ParseFloat fp ''9223372036854775808'' = Inr f"
  shows "Conv_ToInt64 fp ctx (VString (decimal (2 ^ 63))) = Inr (int64_of_float64 fp f) \<and>
         Conv_ToInt fp ctx (VString (decimal (2 ^ 63))) = Inr (int64_of_float64 fp f)"
proof -
  have d: "decimal (2 ^ 63) = ''9223372036854775808''"
    by (simp add: decimal.simps digitChars_def)
  have s: "strToInt64 fp ''9223372036854775808'' = Inr (int64_of_float64 fp f)"
    using assms(3) by (simp add: strToInt64_def removeCommas_def ParseInt_2_63)
  have r: "\<not> (sint (int64_of_float64 fp f) < MinInt64 \<or> sint (int64_of_float64 fp f) > MaxInt64)"
    using sint64_range [of "int64_of_float64 fp f"] by simp
  show ?thesis
    unfolding d using assms(1,2) r
    by (simp add: Conv_ToInt64_def Conv_ToInt_def toInt_def toInt64_def s)
qed

theorem Conv_ToInt64_out_of_range_text_witness:
  "Conv_ToInt64 amd64Float \<lparr>template = emptyTemplate, allowedFunctionSet = convFuncs\<rparr>
     (VString ''9223372036854775808'') = Inr (- 9223372036854775808) \<and>
   Conv_ToInt amd64Float \<lparr>template = emptyTemplate, allowedFunctionSet = convFuncs\<rparr>
     (VString ''9223372036854775808'') = Inr (- 9223372036854775808)"
proof -
  let ?ctx = "\<lparr>template = emptyTemplate, allowedFunctionSet = convFuncs\<rparr>"
  have a: "ConvToInt64 \<in> allowedFunctionSet ?ctx" by (simp add: convFuncs_def)
  have b: "ConvToInt \<in> allowedFunctionSet ?ctx" by (simp add: convFuncs_def)
  have c: "ParseFloat amd64Float ''9223372036854775808'' = Inr 0x43E0000000000000"
    by (simp add: amd64Float_def)
  have d: "decimal (2 ^ 63) = ''9223372036854775808''"
    by (simp add: decimal.simps digitChars_def)
  have e: "int64_of_float64 amd64Float 0x43E0000000000000 = - 9223372036854775808"
    by (simp add: amd64Float_def)
  show ?thesis
    using Conv_ToInt64_out_of_range_text [OF a b c] unfolding d e by simp
qed

lemma unsupported_cases:
  assumes "\<not> supportedKind (Indirect v)"
  obtains "v = VNil" | a where "v = VSlice a" | a where "v = VMap a" | s where "v = VOpaque s"
    | a w where "v = VPointer a w" "\<not> supportedKind w"
  using assms by (cases v) auto

lemma toInt64_unsupported:
  assumes "\<not> supportedKind (Indirect v)"
  shows "toInt64 fp v = Inl (Errorf ''could not convert %v to int64'' [v])"
  using assms
proof (cases rule: unsupported_cases)
  case (5 a w)
  then show ?thesis by (cases w) (simp_all add: toInt64_def)
qed (simp_all add: toInt64_def)

lemma toUint64_unsupported:
  assumes "\<not> supportedKind (Indirect v)"
  shows "toUint64 fp v = Inl (Errorf ''could not convert %v to int64'' [v])"
  using assms
proof (cases rule: unsupported_cases)
  case (5 a w)
  then show ?thesis by (cases w) (simp_all add: toUint64_def)
qed (simp_all add: toUint64_def)

lemma toFloat64_unsupported:
  assumes "\<not> supportedKind (Indirect v)"
  shows "toFloat64 fp v = Inl (Errorf ''could not convert %v to float64'' [v])"
  using assms
proof (cases rule: unsupported_cases)
  case (5 a w)
  then show ?thesis by (cases w) (simp_all add: toFloat64_def)
qed (simp_all add: toFloat64_def)

lemma toBool_unsupported:
  assumes "\<not> supportedKind (Indirect v)"
  shows "toBool fp v = False"
  using assms
proof (cases rule: unsupported_cases)
  case (5 a w)
  then show ?thesis by (cases w) (simp_all add: toBool_def)
qed (simp_all add: toBool_def)

text \<open>
  C3 (as amended). For a value of no supported kind, every integer and floating-point
  conversion fails with an error whose message is formatted from the value itself;
  \<open>ToBool\<close> answers \<open>false\<close> and \<open>ToString\<close> answers the rendering of the value, both
  without an error.
\<close>

theorem conversions_of_unsupported_kind:
  assumes "\<not> supportedKind (Indirect v)" and "convFuncs \<subseteq> allowedFunctionSet ctx"
  shows "Conv_ToInt64 fp ctx v = Inl (Errorf ''could not convert %v to int64'' [v]) \<and>
         Conv_ToInt8 fp ctx v = Inl (Errorf ''could not convert %v to int64'' [v]) \<and>
         Conv_ToInt16 fp ctx v = Inl (Errorf ''could not convert %v to int64'' [v]) \<and>
         Conv_ToInt32 fp ctx v = Inl (Errorf ''could not convert %v to int64'' [v]) \<and>
         Conv_ToInt fp ctx v = Inl (Errorf ''could not convert %v to int64'' [v]) \<and>
         Conv_ToUint64 fp ctx v = Inl (Errorf ''could not convert %v to int64'' [v]) \<and>
         Conv_ToUint8 fp ctx v = Inl (Errorf ''could not convert %v to int64'' [v]) \<and>
         Conv_ToUint16 fp ctx v = Inl (Errorf ''could not convert %v to int64'' [v]) \<and>
         Conv_ToUint32 fp ctx v = Inl (Errorf ''could not convert %v to int64'' [v]) \<and>
         Conv_ToUint fp ctx v = Inl (Errorf ''could not convert %v to int64'' [v]) \<and>
         Conv_ToFloat64 fp ctx v = Inl (Errorf ''could not convert %v to float64'' [v]) \<and>
         Conv_ToFloat32 fp ctx v = Inl (Errorf ''could not convert %v to float64'' [v]) \<and>
         Conv_ToBool fp ctx v = Inr False \<and>
         Conv_ToString mem fmtv ctx v = Inr (toString mem fmtv v)"
  using conv_permitted [OF assms(2)] toInt64_unsupported [OF assms(1), of fp]
    toUint64_unsupported [OF assms(1), of fp] toFloat64_unsupported [OF assms(1), of fp]
    toBool_unsupported [OF assms(1), of fp]
  by (simp add: Conv_ToInt64_def Conv_ToInt8_def Conv_ToInt16_def Conv_ToInt32_def Conv_ToInt_def
      Conv_ToUint64_def Conv_ToUint8_def Conv_ToUint16_def Conv_ToUint32_def Conv_ToUint_def
      Conv_ToFloat64_def Conv_ToFloat32_def Conv_ToBool_def Conv_ToString_def
      toInt_def toUint_def toFloat32_def)

theorem conversions_of_unsupported_kind_witness:
  "Conv_ToInt8 noFloat \<lparr>template = emptyTemplate, allowedFunctionSet = convFuncs\<rparr> (VMap 0) =
     Inl (Errorf ''could not convert %v to int64'' [VMap 0]) \<and>
   Conv_ToFloat32 noFloat \<lparr>template = emptyTemplate, allowedFunctionSet = convFuncs\<rparr> (VPointer 1 VNil) =
     Inl (Errorf ''could not convert %v to float64'' [VPointer 1 VNil])"
proof -
  let ?ctx = "\<lparr>template = emptyTemplate, allowedFunctionSet = convFuncs\<rparr>"
  have a: "\<not> supportedKind (Indirect (VMap 0))" by simp
  have b: "\<not> supportedKind (Indirect (VPointer 1 VNil))" by simp
  have c: "convFuncs \<subseteq> allowedFunctionSet ?ctx" by simp
  show ?thesis
    using conversions_of_unsupported_kind [OF a c, of noFloat]
      conversions_of_unsupported_kind [OF b c, of noFloat]
    by simp
qed

text \<open>
  C3 as stated fails for the targets bool and string: a map converts to \<open>false\<close> and to
  its rendering, without an error.
\<close>

theorem Conv_ToBool_unsupported_counterexample:
  "\<not> supportedKind (Indirect (VMap 0)) \<and>
   Conv_ToBool noFloat \<lparr>template = emptyTemplate, allowedFunctionSet = convFuncs\<rparr> (VMap 0) =
     Inr False \<and>
   Conv_ToString (cells emptyStore) (\<lambda>_. ''map[]'')
     \<lparr>template = emptyTemplate, allowedFunctionSet = convFuncs\<rparr> (VMap 0) = Inr ''map[]''"
  by (simp add: Conv_ToBool_def Conv_ToString_def convFuncs_def toBool_def toString_def)

section \<open>Sort and Unique\<close>

























lemma keepFirst_distinct:
  "distinct (keepFirst (\<lambda>a b. a = b) before xs) \<and>
   set (keepFirst (\<lambda>a b. a = b) before xs) = set xs - set before"
  by (induction xs arbitrary: before) (auto simp: list_ex_iff)

lemma firstOccurrences_distinct:
  "distinct (firstOccurrences (\<lambda>a b. a = b) xs) \<and>
   set (firstOccurrences (\<lambda>a b. a = b) xs) = set xs"
  using keepFirst_distinct [of "[]" xs] by (simp add: firstOccurrences_def)




end
